theory Spec2Isabelle
  imports Complex_Main "HOL-Library.Sublist" "HOL-Library.Multiset"
begin

section \<open>Go strings\<close>

text \<open>
  A Go string is a sequence of bytes; \<^typ>\<open>string\<close> (a list of 8-bit characters) is
  that sequence. The functions of package \<open>strings\<close> that the evidence package calls
  are written out here on bytes. Every separator and cut set that the source passes is a
  constant of ASCII characters, and the functions are modelled for such arguments.
\<close>

text \<open>\<open>strings.HasPrefix(s, prefix)\<close>.\<close>

definition strings_HasPrefix :: "string \<Rightarrow> string \<Rightarrow> bool" where
  "strings_HasPrefix s p = prefix p s"

text \<open>\<open>strings.Contains(s, substr)\<close>: \<open>substr\<close> occurs at some offset of \<open>s\<close>.\<close>

fun strings_Contains :: "string \<Rightarrow> string \<Rightarrow> bool" where
  "strings_Contains [] sub = (sub = [])"
| "strings_Contains (c # cs) sub = (prefix sub (c # cs) \<or> strings_Contains cs sub)"

text \<open>
  \<open>strings.Split(s, sep)\<close> for a non-empty \<open>sep\<close>: the pieces between the occurrences
  of \<open>sep\<close>, found from the left without overlap. The result is never empty.
\<close>

function strings_Split_from :: "string \<Rightarrow> string \<Rightarrow> string \<Rightarrow> string list" where
  "strings_Split_from sep cur [] = [rev cur]"
| "strings_Split_from sep cur (c # cs) =
     (if sep \<noteq> [] \<and> prefix sep (c # cs)
      then rev cur # strings_Split_from sep [] (drop (length sep) (c # cs))
      else strings_Split_from sep (c # cur) cs)"
  by pat_completeness auto
termination
  by (relation "measure (\<lambda>(sep, cur, s). length s)") auto

definition strings_Split :: "string \<Rightarrow> string \<Rightarrow> string list" where
  "strings_Split s sep = strings_Split_from sep [] s"

text \<open>
  \<open>strings.SplitN(s, sep, n)\<close> for \<open>n > 0\<close> and a non-empty \<open>sep\<close>: at most \<open>n\<close>
  pieces, the last one the unsplit rest.
\<close>

function strings_SplitN_from :: "string \<Rightarrow> nat \<Rightarrow> string \<Rightarrow> string \<Rightarrow> string list" where
  "strings_SplitN_from sep n cur [] = [rev cur]"
| "strings_SplitN_from sep n cur (c # cs) =
     (if n \<le> 1 then [rev cur @ c # cs]
      else if sep \<noteq> [] \<and> prefix sep (c # cs)
      then rev cur # strings_SplitN_from sep (n - 1) [] (drop (length sep) (c # cs))
      else strings_SplitN_from sep n (c # cur) cs)"
  by pat_completeness auto
termination
  by (relation "measure (\<lambda>(sep, n, cur, s). length s)") auto

definition strings_SplitN :: "string \<Rightarrow> string \<Rightarrow> nat \<Rightarrow> string list" where
  "strings_SplitN s sep n = strings_SplitN_from sep n [] s"

text \<open>\<open>strings.Join(elems, sep)\<close>.\<close>

fun strings_Join :: "string list \<Rightarrow> string \<Rightarrow> string" where
  "strings_Join [] sep = []"
| "strings_Join [x] sep = x"
| "strings_Join (x # y # ys) sep = x @ sep @ strings_Join (y # ys) sep"

text \<open>\<open>strings.TrimLeft(s, cutset)\<close> for a cut set of ASCII characters.\<close>

definition strings_TrimLeft :: "string \<Rightarrow> string \<Rightarrow> string" where
  "strings_TrimLeft s cutset = dropWhile (\<lambda>c. c \<in> set cutset) s"

text \<open>
  White space as \<open>unicode.IsSpace\<close> defines it, each code point in its UTF-8 encoding:
  U+0009 to U+000D, U+0020, U+0085, U+00A0, U+1680, U+2000 to U+200A, U+2028, U+2029,
  U+202F, U+205F and U+3000. UTF-8 is prefix-free and an ill-formed byte decodes to
  \<open>utf8.RuneError\<close>, which is no white space, so the first (last) rune of a string is white
  space exactly when one of these encodings is a prefix (suffix) of the string.
\<close>

definition white_space :: "string list" where
  "white_space =
    [[CHR 0x09], [CHR 0x0A], [CHR 0x0B], [CHR 0x0C], [CHR 0x0D], [CHR 0x20],
     [CHR 0xC2, CHR 0x85], [CHR 0xC2, CHR 0xA0],
     [CHR 0xE1, CHR 0x9A, CHR 0x80],
     [CHR 0xE2, CHR 0x80, CHR 0x80], [CHR 0xE2, CHR 0x80, CHR 0x81],
     [CHR 0xE2, CHR 0x80, CHR 0x82], [CHR 0xE2, CHR 0x80, CHR 0x83],
     [CHR 0xE2, CHR 0x80, CHR 0x84], [CHR 0xE2, CHR 0x80, CHR 0x85],
     [CHR 0xE2, CHR 0x80, CHR 0x86], [CHR 0xE2, CHR 0x80, CHR 0x87],
     [CHR 0xE2, CHR 0x80, CHR 0x88], [CHR 0xE2, CHR 0x80, CHR 0x89],
     [CHR 0xE2, CHR 0x80, CHR 0x8A],
     [CHR 0xE2, CHR 0x80, CHR 0xA8], [CHR 0xE2, CHR 0x80, CHR 0xA9],
     [CHR 0xE2, CHR 0x80, CHR 0xAF],
     [CHR 0xE2, CHR 0x81, CHR 0x9F],
     [CHR 0xE3, CHR 0x80, CHR 0x80]]"

text \<open>
  Removing, again and again, a leading element of \<open>ws\<close>: with the encodings above this
  is \<open>strings.TrimLeftFunc(s, unicode.IsSpace)\<close>.
\<close>

function trim_leading :: "'a list list \<Rightarrow> 'a list \<Rightarrow> 'a list" where
  "trim_leading ws s =
     (case find (\<lambda>w. w \<noteq> [] \<and> prefix w s) ws of
        None \<Rightarrow> s
      | Some w \<Rightarrow> trim_leading ws (drop (length w) s))"
  by pat_completeness auto
termination
proof (relation "measure (\<lambda>(ws, s). length s)")
  show "wf (measure (\<lambda>(ws::'a list list, s::'a list). length s))"
    by simp
next
  fix ws :: "'a list list" and s w :: "'a list"
  assume "find (\<lambda>w. w \<noteq> [] \<and> prefix w s) ws = Some w"
  then have "w \<noteq> []" and "prefix w s"
    by (auto simp: find_Some_iff)
  then have "length w \<le> length s"
    by (simp add: prefix_length_le)
  with \<open>w \<noteq> []\<close> show "((ws, drop (length w) s), (ws, s)) \<in> measure (\<lambda>(ws, s). length s)"
    by (cases w) auto
qed

declare trim_leading.simps [simp del]

definition TrimLeft_space :: "string \<Rightarrow> string" where
  "TrimLeft_space s = trim_leading white_space s"

definition TrimRight_space :: "string \<Rightarrow> string" where
  "TrimRight_space s = rev (trim_leading (map rev white_space) (rev s))"

text \<open>
  \<open>strings.TrimSpace(s)\<close>: all leading white space removed, then all trailing white
  space (the library's fast path for ASCII computes the same slice).
\<close>

definition strings_TrimSpace :: "string \<Rightarrow> string" where
  "strings_TrimSpace s = TrimRight_space (TrimLeft_space s)"

text \<open>\<open>fmt.Sprintf("%d", n)\<close> for an index \<open>n \<ge> 0\<close>.\<close>

definition digit :: "nat \<Rightarrow> char" where
  "digit d = ''0123456789'' ! d"

function Sprintf_d :: "nat \<Rightarrow> string" where
  "Sprintf_d n = (if n < 10 then [digit n] else Sprintf_d (n div 10) @ [digit (n mod 10)])"
  by pat_completeness auto
termination
  by (relation "measure id") auto

declare Sprintf_d.simps [simp del]

section \<open>The data model (package \<open>evidence\<close>)\<close>

text \<open>
  The three structs of \<open>evidence.go\<close>. A confidence is a \<open>float64\<close> in the source; it
  is a real number here, so a product is the exact product, where the source rounds it
  to the nearest \<open>float64\<close>. Rounding is monotone and keeps 0 and 1, so the order facts
  below are the same on both sides.
\<close>

record EvidenceChunk =
  Text :: string
  SourceID :: string
  SectionPath :: string
  Confidence :: real

record SchemaCandidate =
  TargetField :: string
  Value :: string
  SourceRef :: string
  CandidateConfidence :: real

record EvidenceSource =
  Content :: string
  Format :: string
  ID :: string

text \<open>
  Errors as values. \<open>'e\<close> is the error type of the YAML library; each \<open>fmt.Errorf\<close> of
  the source that wraps a cause with \<open>%w\<close> is a constructor holding the cause.
\<close>

datatype 'e error =
    Library 'e
  | UnmarshalYAMLJSON "'e error"
  | UnmarshalManifest "'e error"
  | ParserFailed string "'e error"
  | UnsupportedFormat string string

text \<open>
  \<open>kubeManifest\<close>: the top-level fields of a manifest. A Go map that the source only
  reads by key is a partial function; \<open>Spec\<close> is optional because the source tests it
  against \<open>nil\<close>. \<open>'v\<close> is the type of a decoded YAML value (\<open>interface{}\<close>).
\<close>

record 'v kubeManifest =
  APIVersion :: string
  Kind :: string
  Metadata :: "string \<rightharpoonup> 'v"
  Spec :: "(string \<rightharpoonup> 'v) option"

text \<open>
  What the package calls and does not define: the Unicode case mapping of package
  \<open>strings\<close>, \<open>strconv.Quote\<close> (the verb \<open>%q\<close>), and the YAML library
  \<open>github.com/goccy/go-yaml\<close>. They are parameters of the model.
  \<^item> \<open>yaml_Unmarshal_map\<close> is \<open>yaml.Unmarshal\<close> into a \<open>map[string]interface{}\<close>. The
    map is given by the list of its entries; the order of the list has no meaning
    (see \<open>range_order\<close> below).
  \<^item> \<open>yaml_Unmarshal_manifest\<close> is \<open>yaml.Unmarshal\<close> into a \<open>kubeManifest\<close>.
  \<^item> \<open>fmt_Sprint_v\<close> is \<open>fmt.Sprintf("%v", value)\<close>, and \<open>Error_text\<close> the method
    \<open>Error()\<close> of a library error.
\<close>

record ('v, 'e) go_lib =
  strings_ToLower :: "string \<Rightarrow> string"
  strings_EqualFold :: "string \<Rightarrow> string \<Rightarrow> bool"
  strconv_Quote :: "string \<Rightarrow> string"
  yaml_Unmarshal_map :: "string \<Rightarrow> 'e + (string \<times> 'v) list"
  yaml_Unmarshal_manifest :: "string \<Rightarrow> 'e + 'v kubeManifest"
  yaml_Marshal :: "'v \<Rightarrow> 'e + string"
  fmt_Sprint_v :: "'v \<Rightarrow> string"
  Error_text :: "'e \<Rightarrow> string"


text \<open>
  A \<open>range\<close> over a Go map visits every entry once, in an order that the language leaves
  open and the runtime varies from one execution to the next. A function that ranges
  over a map takes the order of this execution as an argument: any function that permutes
  the entries.
\<close>

definition range_order :: "((string \<times> 'v) list \<Rightarrow> (string \<times> 'v) list) \<Rightarrow> bool" where
  "range_order ord = (\<forall>entries. mset (ord entries) = mset entries)"

section \<open>The schema mapper\<close>

text \<open>\<open>fieldRule\<close>; its field \<open>keywords\<close> is \<open>rule_keywords\<close> here.\<close>

record fieldRule =
  rule_keywords :: "string list"
  targetField :: string

definition schemaFieldRules :: "fieldRule list" where
  "schemaFieldRules =
    [\<lparr>rule_keywords = [''identifier'', ''id:'', ''control id'', ''policy id''], targetField = ''metadata.id''\<rparr>,
     \<lparr>rule_keywords = [''title:'', ''name:'', ''policy name'', ''control name''], targetField = ''metadata.title''\<rparr>,
     \<lparr>rule_keywords = [''version:'', ''revision:''], targetField = ''metadata.version''\<rparr>,
     \<lparr>rule_keywords = [''objective'', ''goal'', ''purpose'', ''intent''], targetField = ''controls[].objective''\<rparr>,
     \<lparr>rule_keywords = [''control statement'', ''requirement'', ''must '', ''shall '', ''required to''],
        targetField = ''controls[].statement''\<rparr>,
     \<lparr>rule_keywords = [''assessment'', ''verify'', ''verification'', ''audit'', ''check''],
        targetField = ''controls[].assessment''\<rparr>,
     \<lparr>rule_keywords = [''implementation'', ''procedure'', ''how to'', ''steps to''],
        targetField = ''controls[].implementation''\<rparr>,
     \<lparr>rule_keywords = [''parameter'', ''setting'', ''configuration'', ''config value''],
        targetField = ''controls[].parameters[]''\<rparr>,
     \<lparr>rule_keywords = [''reference'', ''see also'', ''related'', ''maps to''],
        targetField = ''metadata.references[]''\<rparr>,
     \<lparr>rule_keywords = [''scope'', ''applies to'', ''applicability''], targetField = ''metadata.scope''\<rparr>,
     \<lparr>rule_keywords = [''description'', ''overview'', ''summary'', ''background''],
        targetField = ''metadata.description''\<rparr>]"

text \<open>\<open>normalizeValue\<close>: the loop over the lines, \<open>parts\<close> being the slice it appends to.\<close>

fun normalizeValue_loop :: "string list \<Rightarrow> string list \<Rightarrow> string list" where
  "normalizeValue_loop [] parts = parts"
| "normalizeValue_loop (l # ls) parts =
     (let trimmed = strings_TrimSpace l
      in normalizeValue_loop ls (if trimmed \<noteq> [] then parts @ [trimmed] else parts))"

definition normalizeValue :: "string \<Rightarrow> string" where
  "normalizeValue text = strings_Join (normalizeValue_loop (strings_Split text ''\<newline>'') []) '' ''"

text \<open>
  \<open>mapChunk\<close>: the loop over the rules and, inside it, the loop over the keywords of a
  rule; the first keyword found in the lower-cased text returns the candidate, and
  \<open>None\<close> is the \<open>nil\<close> returned after both loops.
\<close>

fun mapChunk_keywords ::
  "EvidenceChunk \<Rightarrow> string \<Rightarrow> fieldRule \<Rightarrow> string list \<Rightarrow> SchemaCandidate option" where
  "mapChunk_keywords chunk lower rule [] = None"
| "mapChunk_keywords chunk lower rule (kw # kws) =
     (if strings_Contains lower kw
      then (let mappingConfidence = 0.75;
                combined = mappingConfidence * Confidence chunk
            in Some \<lparr>TargetField = targetField rule,
                     Value = normalizeValue (Text chunk),
                     SourceRef = SourceID chunk @ '' / '' @ SectionPath chunk,
                     CandidateConfidence = combined\<rparr>)
      else mapChunk_keywords chunk lower rule kws)"

fun mapChunk_rules :: "EvidenceChunk \<Rightarrow> string \<Rightarrow> fieldRule list \<Rightarrow> SchemaCandidate option" where
  "mapChunk_rules chunk lower [] = None"
| "mapChunk_rules chunk lower (rule # rules) =
     (case mapChunk_keywords chunk lower rule (rule_keywords rule) of
        Some candidate \<Rightarrow> Some candidate
      | None \<Rightarrow> mapChunk_rules chunk lower rules)"

definition mapChunk :: "('v, 'e) go_lib \<Rightarrow> EvidenceChunk \<Rightarrow> SchemaCandidate option" where
  "mapChunk lib chunk = mapChunk_rules chunk (strings_ToLower lib (Text chunk)) schemaFieldRules"

text \<open>\<open>SchemaMapper.Map\<close>: \<open>candidates\<close> is the slice the loop appends to.\<close>

fun Map_loop ::
  "('v, 'e) go_lib \<Rightarrow> EvidenceChunk list \<Rightarrow> SchemaCandidate list \<Rightarrow> SchemaCandidate list" where
  "Map_loop lib [] candidates = candidates"
| "Map_loop lib (chunk # chunks) candidates =
     (case mapChunk lib chunk of
        Some candidate \<Rightarrow> Map_loop lib chunks (candidates @ [candidate])
      | None \<Rightarrow> Map_loop lib chunks candidates)"

definition SchemaMapper_Map :: "('v, 'e) go_lib \<Rightarrow> EvidenceChunk list \<Rightarrow> SchemaCandidate list" where
  "SchemaMapper_Map lib chunks = Map_loop lib chunks []"

section \<open>The parsers (package \<open>parsers\<close>)\<close>

subsection \<open>Markdown\<close>

definition MarkdownParser_CanHandle :: "('v, 'e) go_lib \<Rightarrow> EvidenceSource \<Rightarrow> bool" where
  "MarkdownParser_CanHandle lib source =
     (if strings_EqualFold lib (Format source) ''markdown'' \<or> strings_EqualFold lib (Format source) ''md''
      then True
      else (let content = strings_TrimSpace (Content source)
            in strings_HasPrefix content ''#'' \<or> strings_Contains content ''\<newline>#''))"

text \<open>
  The variables of \<open>MarkdownParser.Parse\<close> that its closure \<open>flush\<close> and its loop share
  (\<open>md_chunks\<close> is the variable \<open>chunks\<close>).
\<close>

record markdown_state =
  md_chunks :: "EvidenceChunk list"
  currentHeading :: string
  currentLines :: "string list"

definition flush :: "EvidenceSource \<Rightarrow> markdown_state \<Rightarrow> markdown_state" where
  "flush source st =
     (let text = strings_TrimSpace (strings_Join (currentLines st) ''\<newline>'')
      in if text = [] then st
         else (let sectionPath = (if currentHeading st = [] then ''preamble'' else currentHeading st)
               in st\<lparr>md_chunks := md_chunks st @
                    [\<lparr>Text = text, SourceID = ID source, SectionPath = sectionPath,
                      Confidence = 0.85\<rparr>]\<rparr>))"

fun MarkdownParser_Parse_loop ::
  "EvidenceSource \<Rightarrow> string list \<Rightarrow> markdown_state \<Rightarrow> markdown_state" where
  "MarkdownParser_Parse_loop source [] st = st"
| "MarkdownParser_Parse_loop source (line # lines) st =
     MarkdownParser_Parse_loop source lines
       (if strings_HasPrefix line ''#''
        then (flush source st)
               \<lparr>currentHeading := strings_TrimSpace (strings_TrimLeft line ''#''),
                currentLines := []\<rparr>
        else st\<lparr>currentLines := currentLines st @ [line]\<rparr>)"

text \<open>The part of \<open>Parse\<close> after the split into lines: the loop and the last \<open>flush\<close>.\<close>

definition MarkdownParser_Parse_lines :: "EvidenceSource \<Rightarrow> string list \<Rightarrow> EvidenceChunk list" where
  "MarkdownParser_Parse_lines source lines =
     md_chunks (flush source
       (MarkdownParser_Parse_loop source lines
          \<lparr>md_chunks = [], currentHeading = [], currentLines = []\<rparr>))"

definition MarkdownParser_Parse :: "EvidenceSource \<Rightarrow> 'e error + EvidenceChunk list" where
  "MarkdownParser_Parse source =
     Inr (MarkdownParser_Parse_lines source (strings_Split (Content source) ''\<newline>''))"

subsection \<open>YAML and JSON\<close>

definition YAMLParser_CanHandle :: "('v, 'e) go_lib \<Rightarrow> EvidenceSource \<Rightarrow> bool" where
  "YAMLParser_CanHandle lib source =
     (if strings_ToLower lib (Format source) \<in> {''yaml'', ''yml'', ''json''} then True
      else (let content = strings_TrimSpace (Content source)
            in if strings_HasPrefix content ''{'' then True
               else if 0 < length content
                        \<and> (case strings_SplitN content ''\<newline>'' 2 of
                              first # _ \<Rightarrow> strings_Contains first '':''
                            | [] \<Rightarrow> False)
                        \<and> \<not> strings_HasPrefix content ''#'' \<and> \<not> strings_HasPrefix content ''FROM''
               then True
               else False))"

text \<open>
  \<open>rendered\<close>: \<open>yaml.Marshal(value)\<close>, and \<open>fmt.Sprintf("%v", value)\<close> when that fails.
\<close>

definition rendered :: "('v, 'e) go_lib \<Rightarrow> 'v \<Rightarrow> string" where
  "rendered lib val = (case yaml_Marshal lib val of Inr r \<Rightarrow> r | Inl err \<Rightarrow> fmt_Sprint_v lib val)"

text \<open>The loop of \<open>YAMLParser.Parse\<close> over the entries, in the order the range visits them.\<close>

fun YAMLParser_Parse_loop ::
  "('v, 'e) go_lib \<Rightarrow> EvidenceSource \<Rightarrow> (string \<times> 'v) list \<Rightarrow> EvidenceChunk list \<Rightarrow> EvidenceChunk list" where
  "YAMLParser_Parse_loop lib source [] chunks = chunks"
| "YAMLParser_Parse_loop lib source ((key, val) # entries) chunks =
     YAMLParser_Parse_loop lib source entries
       (chunks @ [\<lparr>Text = key @ '': '' @ strings_TrimSpace (rendered lib val),
                   SourceID = ID source, SectionPath = key, Confidence = 0.80\<rparr>])"

text \<open>
  \<open>YAMLParser.Parse\<close>. \<open>ord\<close> is the order in which this execution's \<open>range doc\<close> visits
  the entries of the decoded map.
\<close>

definition YAMLParser_Parse ::
  "('v, 'e) go_lib \<Rightarrow> ((string \<times> 'v) list \<Rightarrow> (string \<times> 'v) list) \<Rightarrow> EvidenceSource
     \<Rightarrow> 'e error + EvidenceChunk list" where
  "YAMLParser_Parse lib ord source =
     (case yaml_Unmarshal_map lib (Content source) of
        Inl err \<Rightarrow> Inl (UnmarshalYAMLJSON (Library err))
      | Inr doc \<Rightarrow> Inr (YAMLParser_Parse_loop lib source (ord doc) []))"

subsection \<open>Kubernetes manifests\<close>

definition KubernetesParser_CanHandle :: "('v, 'e) go_lib \<Rightarrow> EvidenceSource \<Rightarrow> bool" where
  "KubernetesParser_CanHandle lib source =
     (if strings_ToLower lib (Format source) \<in> {''kubernetes'', ''k8s''} then True
      else strings_Contains (Content source) ''apiVersion:''
             \<and> strings_Contains (Content source) ''kind:'')"

definition securityKeys :: "string list" where
  "securityKeys =
    [''securityContext'', ''containers'', ''initContainers'',
     ''volumes'', ''serviceAccountName'', ''hostNetwork'',
     ''hostPID'', ''hostIPC'', ''resources'', ''env'', ''image'']"

fun extractSpecChunks_loop ::
  "('v, 'e) go_lib \<Rightarrow> (string \<rightharpoonup> 'v) \<Rightarrow> string \<Rightarrow> string \<Rightarrow> string list \<Rightarrow> EvidenceChunk list
     \<Rightarrow> EvidenceChunk list" where
  "extractSpecChunks_loop lib spec sourceID resourceRef [] chunks = chunks"
| "extractSpecChunks_loop lib spec sourceID resourceRef (key # keys) chunks =
     (case spec key of
        None \<Rightarrow> extractSpecChunks_loop lib spec sourceID resourceRef keys chunks
      | Some val \<Rightarrow>
          extractSpecChunks_loop lib spec sourceID resourceRef keys
            (chunks @ [\<lparr>Text = key @ '':\<newline>'' @ strings_TrimSpace (rendered lib val),
                        SourceID = sourceID,
                        SectionPath = resourceRef @ '' / spec.'' @ key,
                        Confidence = 0.88\<rparr>]))"

definition extractSpecChunks ::
  "('v, 'e) go_lib \<Rightarrow> (string \<rightharpoonup> 'v) \<Rightarrow> string \<Rightarrow> string \<Rightarrow> EvidenceChunk list" where
  "extractSpecChunks lib spec sourceID resourceRef =
     extractSpecChunks_loop lib spec sourceID resourceRef securityKeys []"

definition parseDocument ::
  "('v, 'e) go_lib \<Rightarrow> string \<Rightarrow> string \<Rightarrow> nat \<Rightarrow> 'e error + EvidenceChunk list" where
  "parseDocument lib content sourceID docIndex =
     (case yaml_Unmarshal_manifest lib content of
        Inl err \<Rightarrow> Inl (UnmarshalManifest (Library err))
      | Inr manifest \<Rightarrow>
          (let resourceRef =
                 (case Metadata manifest ''name'' of
                    Some name \<Rightarrow>
                      Kind manifest @ ''/'' @ fmt_Sprint_v lib name
                        @ '' (doc '' @ Sprintf_d docIndex @ '')''
                  | None \<Rightarrow> Kind manifest @ ''/'' @ APIVersion manifest);
               identity =
                 (if Kind manifest \<noteq> []
                  then [\<lparr>Text = ''kind: '' @ Kind manifest @ ''\<newline>apiVersion: '' @ APIVersion manifest,
                         SourceID = sourceID,
                         SectionPath = resourceRef @ '' / identity'',
                         Confidence = 0.90\<rparr>]
                  else [])
           in case Spec manifest of
                Some spec \<Rightarrow> Inr (identity @ extractSpecChunks lib spec sourceID resourceRef)
              | None \<Rightarrow> Inr identity))"

text \<open>
  The loop of \<open>KubernetesParser.Parse\<close>: \<open>i\<close> is the index of \<open>doc\<close> among the pieces,
  and both \<open>continue\<close> statements leave \<open>chunks\<close> as it is.
\<close>

fun KubernetesParser_Parse_loop ::
  "('v, 'e) go_lib \<Rightarrow> EvidenceSource \<Rightarrow> nat \<Rightarrow> string list \<Rightarrow> EvidenceChunk list
     \<Rightarrow> EvidenceChunk list" where
  "KubernetesParser_Parse_loop lib source i [] chunks = chunks"
| "KubernetesParser_Parse_loop lib source i (doc # docs) chunks =
     (let doc = strings_TrimSpace doc
      in if doc = [] then KubernetesParser_Parse_loop lib source (i + 1) docs chunks
         else (case parseDocument lib doc (ID source) i of
                 Inl err \<Rightarrow> KubernetesParser_Parse_loop lib source (i + 1) docs chunks
               | Inr docChunks \<Rightarrow>
                   KubernetesParser_Parse_loop lib source (i + 1) docs (chunks @ docChunks)))"

definition KubernetesParser_Parse ::
  "('v, 'e) go_lib \<Rightarrow> EvidenceSource \<Rightarrow> 'e error + EvidenceChunk list" where
  "KubernetesParser_Parse lib source =
     Inr (KubernetesParser_Parse_loop lib source 0
            (strings_Split (Content source) ''\<newline>---'') [])"

section \<open>The pipeline\<close>

text \<open>
  \<open>EvidenceParser\<close>, the interface: a value with the three methods. The first argument
  of \<open>Parse\<close> is what the call gets from the execution besides the source; for the
  parsers of this package that is the order of a range over a map, which only the YAML
  parser uses (the parsers ignore the \<open>context.Context\<close>).
\<close>

record ('r, 'e) EvidenceParser =
  CanHandle :: "EvidenceSource \<Rightarrow> bool"
  Parse :: "'r \<Rightarrow> EvidenceSource \<Rightarrow> 'e error + EvidenceChunk list"
  Name :: string

definition MarkdownParser ::
  "('v, 'e) go_lib \<Rightarrow> ((string \<times> 'v) list \<Rightarrow> (string \<times> 'v) list, 'e) EvidenceParser" where
  "MarkdownParser lib =
     \<lparr>CanHandle = MarkdownParser_CanHandle lib,
      Parse = (\<lambda>ord. MarkdownParser_Parse),
      Name = ''markdown''\<rparr>"

definition YAMLParser ::
  "('v, 'e) go_lib \<Rightarrow> ((string \<times> 'v) list \<Rightarrow> (string \<times> 'v) list, 'e) EvidenceParser" where
  "YAMLParser lib =
     \<lparr>CanHandle = YAMLParser_CanHandle lib,
      Parse = YAMLParser_Parse lib,
      Name = ''yaml''\<rparr>"

definition KubernetesParser ::
  "('v, 'e) go_lib \<Rightarrow> ((string \<times> 'v) list \<Rightarrow> (string \<times> 'v) list, 'e) EvidenceParser" where
  "KubernetesParser lib =
     \<lparr>CanHandle = KubernetesParser_CanHandle lib,
      Parse = (\<lambda>ord. KubernetesParser_Parse lib),
      Name = ''kubernetes''\<rparr>"

text \<open>
  \<open>Pipeline\<close>: the registered parsers (the mapper it also holds is an empty struct) and
  \<open>RunResult\<close>.
\<close>

record ('r, 'e) Pipeline =
  parsers :: "('r, 'e) EvidenceParser list"

record RunResult =
  Candidates :: "SchemaCandidate list"
  ParserUsed :: string
  ChunkCount :: nat

definition NewPipeline :: "('r, 'e) EvidenceParser list \<Rightarrow> ('r, 'e) Pipeline" where
  "NewPipeline ps = \<lparr>parsers = ps\<rparr>"

fun selectParser_loop ::
  "('r, 'e) EvidenceParser list \<Rightarrow> EvidenceSource \<Rightarrow> 'e error + ('r, 'e) EvidenceParser" where
  "selectParser_loop [] source = Inl (UnsupportedFormat (ID source) (Format source))"
| "selectParser_loop (parser # rest) source =
     (if CanHandle parser source then Inr parser else selectParser_loop rest source)"

definition selectParser ::
  "('r, 'e) Pipeline \<Rightarrow> EvidenceSource \<Rightarrow> 'e error + ('r, 'e) EvidenceParser" where
  "selectParser p source = selectParser_loop (parsers p) source"

definition RunWithMeta ::
  "('v, 'e) go_lib \<Rightarrow> ('r, 'e) Pipeline \<Rightarrow> 'r \<Rightarrow> EvidenceSource \<Rightarrow> 'e error + RunResult" where
  "RunWithMeta lib p r source =
     (case selectParser p source of
        Inl err \<Rightarrow> Inl err
      | Inr parser \<Rightarrow>
          (case Parse parser r source of
             Inl err \<Rightarrow> Inl (ParserFailed (Name parser) err)
           | Inr chunks \<Rightarrow>
               Inr \<lparr>Candidates = SchemaMapper_Map lib chunks,
                    ParserUsed = Name parser,
                    ChunkCount = length chunks\<rparr>))"


section \<open>The claims' own notions\<close>

text \<open>
  The first rule, in table order, that has a keyword occurring in the lower-cased text:
  the specification's description of the mapper, to compare \<open>mapChunk\<close> with.
\<close>

definition first_matching_rule :: "string \<Rightarrow> fieldRule list \<Rightarrow> fieldRule option" where
  "first_matching_rule lower rules =
     find (\<lambda>rule. \<exists>kw\<in>set (rule_keywords rule). strings_Contains lower kw) rules"

section \<open>A sample library and the documents of the tests\<close>

text \<open>
  For the examples: the ASCII part of \<open>strings.ToLower\<close> and \<open>strings.EqualFold\<close>,
  \<open>strconv.Quote\<close> on text without quotes, backslashes or control characters, and a
  decoder that knows the documents of the repository's tests (\<open>policy_yaml\<close> from
  \<open>TestYAMLParser_Parse\<close>, \<open>deployment_doc\<close> and \<open>service_doc\<close> from
  \<open>TestKubernetesParser_Parse_MultiDoc\<close>), the empty document and a manifest with a
  \<open>kind\<close> and nothing else; it fails on everything else. A decoded value is given by
  the YAML text that prints it.
\<close>

fun ascii_lower_char :: "char \<Rightarrow> char" where
  "ascii_lower_char (Char b0 b1 b2 b3 b4 b5 b6 b7) =
     (if 65 \<le> (of_char (Char b0 b1 b2 b3 b4 b5 b6 b7) :: nat)
          \<and> (of_char (Char b0 b1 b2 b3 b4 b5 b6 b7) :: nat) \<le> 90
      then Char b0 b1 b2 b3 b4 True b6 b7
      else Char b0 b1 b2 b3 b4 b5 b6 b7)"

definition ascii_ToLower :: "string \<Rightarrow> string" where
  "ascii_ToLower s = map ascii_lower_char s"

definition policy_yaml :: string where
  \<open>policy_yaml = ''title: My Policy\<newline>version: "1.0"\<newline>objective: Ensure security''\<close>

definition deployment_doc :: string where
  \<open>deployment_doc =
     ''apiVersion: apps/v1\<newline>kind: Deployment\<newline>metadata:\<newline>  name: my-app\<newline>spec:\<newline>  securityContext:\<newline>    runAsNonRoot: true\<newline>  containers:\<newline>    - name: app\<newline>      image: my-app:1.0\<newline>      env:\<newline>        - name: SECRET\<newline>          value: "abc"''\<close>

definition service_doc :: string where
  "service_doc =
     ''apiVersion: v1\<newline>kind: Service\<newline>metadata:\<newline>  name: my-svc\<newline>spec:\<newline>  type: ClusterIP''"

definition sample_Unmarshal_map :: "string \<Rightarrow> string + (string \<times> string) list" where
  \<open>sample_Unmarshal_map content =
     (if content = [] then Inr []
      else if content = policy_yaml
      then Inr [(''title'', ''My Policy''), (''version'', ''"1.0"''), (''objective'', ''Ensure security'')]
      else Inl ''cannot decode'')\<close>

definition sample_Unmarshal_manifest :: "string \<Rightarrow> string + string kubeManifest" where
  "sample_Unmarshal_manifest content =
     (if content = deployment_doc
      then Inr \<lparr>APIVersion = ''apps/v1'', Kind = ''Deployment'',
                Metadata = [''name'' \<mapsto> ''my-app''],
                Spec = Some [''securityContext'' \<mapsto> ''runAsNonRoot: true'',
                             ''containers'' \<mapsto> ''- name: app\<newline>  image: my-app:1.0''] \<rparr>
      else if content = service_doc
      then Inr \<lparr>APIVersion = ''v1'', Kind = ''Service'',
                Metadata = [''name'' \<mapsto> ''my-svc''],
                Spec = Some [''type'' \<mapsto> ''ClusterIP'']\<rparr>
      else if content = ''kind: Pod''
      then Inr \<lparr>APIVersion = [], Kind = ''Pod'', Metadata = Map.empty, Spec = None\<rparr>
      else Inl ''cannot decode'')"

definition sample_lib :: "(string, string) go_lib" where
  \<open>sample_lib =
     \<lparr>strings_ToLower = ascii_ToLower,
      strings_EqualFold = (\<lambda>s t. ascii_ToLower s = ascii_ToLower t),
      strconv_Quote = (\<lambda>s. ''"'' @ s @ ''"''),
      yaml_Unmarshal_map = sample_Unmarshal_map,
      yaml_Unmarshal_manifest = sample_Unmarshal_manifest,
      yaml_Marshal = (\<lambda>v. Inr (v @ ''\<newline>'')),
      fmt_Sprint_v = (\<lambda>v. v),
      Error_text = (\<lambda>e. e)\<rparr>\<close>

section \<open>More notions and examples of the claims\<close>

text \<open>
  What one piece of a manifest stream contributes to the result of
  \<open>KubernetesParser.Parse\<close>: nothing when it is blank or does not decode, its chunks
  otherwise.
\<close>

definition document_chunks :: "('v, 'e) go_lib \<Rightarrow> EvidenceSource \<Rightarrow> nat \<Rightarrow> string \<Rightarrow> EvidenceChunk list" where
  "document_chunks lib source i doc =
     (if strings_TrimSpace doc = [] then []
      else (case parseDocument lib (strings_TrimSpace doc) (ID source) i of
              Inl err \<Rightarrow> []
            | Inr docChunks \<Rightarrow> docChunks))"

text \<open>
  The content of \<open>TestKubernetesParser_Parse_MultiDoc\<close> (\<open>sampleDeployment\<close>, which ends
  in a newline, then the separator and the Service), a source without format hint that
  both the Markdown and the YAML parser claim, and the source of
  \<open>TestPipeline_UnsupportedFormat\<close>.
\<close>

definition multi_doc :: string where
  "multi_doc = deployment_doc @ ''\<newline>\<newline>---\<newline>'' @ service_doc @ ''\<newline>''"

definition sniffed_source :: EvidenceSource where
  "sniffed_source =
     \<lparr>Content = ''title: My Policy\<newline># Scope\<newline>All systems.'', Format = [], ID = ''policy.txt''\<rparr>"


text \<open>
  What one section of a Markdown document contributes: nothing when its body, joined and
  trimmed, is empty; otherwise one chunk, labelled with the heading, or \<open>preamble\<close>
  when the heading is empty.
\<close>

definition section_chunks :: "EvidenceSource \<Rightarrow> string \<Rightarrow> string list \<Rightarrow> EvidenceChunk list" where
  "section_chunks source heading body =
     (let text = strings_TrimSpace (strings_Join body ''\<newline>'')
      in if text = [] then []
         else [\<lparr>Text = text, SourceID = ID source,
                SectionPath = (if heading = [] then ''preamble'' else heading),
                Confidence = 0.85\<rparr>])"

text \<open>A state with chunks put in front of its own (used in the proofs only).\<close>

definition with_chunks_before :: "EvidenceChunk list \<Rightarrow> markdown_state \<Rightarrow> markdown_state" where
  "with_chunks_before A st = st\<lparr>md_chunks := A @ md_chunks st\<rparr>"

text \<open>
  The documents of \<open>TestMarkdownParser_Parse\<close> and \<open>TestMarkdownParser_Parse_Preamble\<close>,
  the YAML document of \<open>TestYAMLParser_Parse\<close> as a source, and a manifest that names a
  kind and no API version.
\<close>

definition section_one_source :: EvidenceSource where
  "section_one_source =
     \<lparr>Content = ''# Section One\<newline>Content of section one.\<newline>\<newline>## Subsection\<newline>More content here.\<newline>\<newline># Section Two\<newline>Another section.'',
      Format = [], ID = ''test.md''\<rparr>"

definition preamble_source :: EvidenceSource where
  "preamble_source =
     \<lparr>Content = ''This is a preamble.\<newline>\<newline># First Section\<newline>Section content.'',
      Format = [], ID = ''doc.md''\<rparr>"

(* C8 *)

definition policy_source :: EvidenceSource where
  "policy_source = \<lparr>Content = policy_yaml, Format = ''yaml'', ID = ''policy.yaml''\<rparr>"

definition pod_source :: EvidenceSource where
  "pod_source = \<lparr>Content = ''kind: Pod'', Format = ''kubernetes'', ID = ''pod.yaml''\<rparr>"


section \<open>Facts about the string functions\<close>

lemma strings_Contains_iff: "strings_Contains s sub \<longleftrightarrow> (\<exists>a b. s = a @ sub @ b)"
proof (induction s)
  case Nil
  then show ?case by auto
next
  case (Cons c cs)
  show ?case
  proof
    assume "strings_Contains (c # cs) sub"
    then consider "prefix sub (c # cs)" | "strings_Contains cs sub" by auto
    then show "\<exists>a b. c # cs = a @ sub @ b"
    proof cases
      case 1
      then obtain b where "c # cs = sub @ b" by (auto simp: prefix_def)
      then have "c # cs = [] @ sub @ b" by simp
      then show ?thesis by blast
    next
      case 2
      then obtain a b where "cs = a @ sub @ b" using Cons.IH by blast
      then have "c # cs = (c # a) @ sub @ b" by simp
      then show ?thesis by blast
    qed
  next
    assume "\<exists>a b. c # cs = a @ sub @ b"
    then obtain a b where ab: "c # cs = a @ sub @ b" by blast
    show "strings_Contains (c # cs) sub"
    proof (cases a)
      case Nil
      with ab have "prefix sub (c # cs)" by (simp add: prefix_def)
      then show ?thesis by simp
    next
      case (Cons a0 as)
      with ab have "cs = as @ sub @ b" by simp
      then have "strings_Contains cs sub" using Cons.IH by blast
      then show ?thesis by simp
    qed
  qed
qed

lemma strings_Contains_append: "strings_Contains (a @ sub @ b) sub"
  by (auto simp: strings_Contains_iff)

lemma trim_leading_suffix: "suffix (trim_leading ws s) s"
proof (induction ws s rule: trim_leading.induct)
  case (1 ws s)
  show ?case
  proof (cases "find (\<lambda>w. w \<noteq> [] \<and> prefix w s) ws")
    case None
    then show ?thesis by (simp add: trim_leading.simps)
  next
    case (Some w)
    then have "suffix (trim_leading ws (drop (length w) s)) (drop (length w) s)"
      using 1 by simp
    moreover have "suffix (drop (length w) s) s"
      by (rule suffix_drop)
    ultimately have "suffix (trim_leading ws (drop (length w) s)) s"
      by (rule suffix_order.trans)
    then show ?thesis using Some by (simp add: trim_leading.simps [of ws s])
  qed
qed

lemma trim_leading_done: "find (\<lambda>w. w \<noteq> [] \<and> prefix w (trim_leading ws s)) ws = None"
proof (induction ws s rule: trim_leading.induct)
  case (1 ws s)
  show ?case
  proof (cases "find (\<lambda>w. w \<noteq> [] \<and> prefix w s) ws")
    case None
    then show ?thesis by (simp add: trim_leading.simps)
  next
    case (Some w)
    then show ?thesis using 1 by (simp add: trim_leading.simps [of ws s])
  qed
qed

lemma trim_leading_fixed:
  "find (\<lambda>w. w \<noteq> [] \<and> prefix w s) ws = None \<Longrightarrow> trim_leading ws s = s"
  by (simp add: trim_leading.simps)

lemma trim_leading_keeps:
  "c \<in> set s \<Longrightarrow> c \<notin> \<Union> (set ` set ws) \<Longrightarrow> c \<in> set (trim_leading ws s)"
proof (induction ws s rule: trim_leading.induct)
  case (1 ws s)
  show ?case
  proof (cases "find (\<lambda>w. w \<noteq> [] \<and> prefix w s) ws")
    case None
    then show ?thesis using 1 by (simp add: trim_leading.simps)
  next
    case (Some w)
    then have w: "w \<in> set ws" "prefix w s"
      by (auto simp: find_Some_iff)
    then have "s = w @ drop (length w) s"
      by (auto simp: prefix_def)
    then have "set s = set w \<union> set (drop (length w) s)"
      by (metis set_append)
    moreover have "c \<notin> set w"
      using w(1) "1.prems"(2) by auto
    ultimately have "c \<in> set (drop (length w) s)"
      using "1.prems"(1) by simp
    then have "c \<in> set (trim_leading ws (drop (length w) s))"
      using 1 Some by simp
    then show ?thesis using Some by (simp add: trim_leading.simps [of ws s])
  qed
qed

lemma find_prefix_mono:
  assumes "find (\<lambda>w. w \<noteq> [] \<and> prefix w u) ws = None" and "prefix t u"
  shows "find (\<lambda>w. w \<noteq> [] \<and> prefix w t) ws = None"
  using assms by (auto simp: find_None_iff intro: prefix_order.trans)

lemma TrimRight_space_prefix: "prefix (TrimRight_space s) s"
proof -
  have "suffix (trim_leading (map rev white_space) (rev s)) (rev s)"
    by (rule trim_leading_suffix)
  then show ?thesis
    by (simp add: TrimRight_space_def suffix_to_prefix)
qed

lemma strings_TrimSpace_idem: "strings_TrimSpace (strings_TrimSpace s) = strings_TrimSpace s"
proof -
  define u where "u = TrimLeft_space s"
  define t where "t = TrimRight_space u"
  have "find (\<lambda>w. w \<noteq> [] \<and> prefix w u) white_space = None"
    unfolding u_def TrimLeft_space_def by (rule trim_leading_done)
  moreover have "prefix t u"
    unfolding t_def by (rule TrimRight_space_prefix)
  ultimately have "find (\<lambda>w. w \<noteq> [] \<and> prefix w t) white_space = None"
    by (rule find_prefix_mono)
  then have left: "TrimLeft_space t = t"
    unfolding TrimLeft_space_def by (rule trim_leading_fixed)
  have "find (\<lambda>w. w \<noteq> [] \<and> prefix w (rev t)) (map rev white_space) = None"
    unfolding t_def TrimRight_space_def rev_rev_ident by (rule trim_leading_done)
  then have "trim_leading (map rev white_space) (rev t) = rev t"
    by (rule trim_leading_fixed)
  then have right: "TrimRight_space t = t"
    by (simp add: TrimRight_space_def)
  show ?thesis
    using left right by (simp add: strings_TrimSpace_def t_def u_def)
qed

lemma white_space_bytes:
  "\<Union> (set ` set white_space) =
     {CHR 0x09, CHR 0x0A, CHR 0x0B, CHR 0x0C, CHR 0x0D, CHR 0x20, CHR 0xC2, CHR 0x85, CHR 0xA0,
      CHR 0xE1, CHR 0x9A, CHR 0x80, CHR 0xE2, CHR 0x81, CHR 0x82, CHR 0x83, CHR 0x84, CHR 0x86,
      CHR 0x87, CHR 0x88, CHR 0x89, CHR 0x8A, CHR 0xA8, CHR 0xA9, CHR 0xAF, CHR 0x9F, CHR 0xE3}"
  by (auto simp: white_space_def)

lemma strings_TrimSpace_keeps:
  assumes "c \<in> set s" and "c \<notin> \<Union> (set ` set white_space)"
  shows "c \<in> set (strings_TrimSpace s)"
proof -
  have "c \<in> set (TrimLeft_space s)"
    unfolding TrimLeft_space_def using assms by (rule trim_leading_keeps)
  then have "c \<in> set (rev (TrimLeft_space s))"
    by simp
  moreover have "c \<notin> \<Union> (set ` set (map rev white_space))"
    using assms(2) by auto
  ultimately have "c \<in> set (trim_leading (map rev white_space) (rev (TrimLeft_space s)))"
    by (rule trim_leading_keeps)
  then show ?thesis
    by (simp add: strings_TrimSpace_def TrimRight_space_def)
qed

lemma strings_TrimSpace_Nil: "strings_TrimSpace [] = []"
  by (simp add: strings_TrimSpace_def TrimLeft_space_def TrimRight_space_def white_space_def trim_leading.simps)

lemma strings_Split_Nil: "strings_Split [] sep = [[]]"
  by (simp add: strings_Split_def)

section \<open>Facts about the mapper\<close>

lemma mapChunk_keywords_eq:
  "mapChunk_keywords chunk lower rule kws =
     (if \<exists>kw\<in>set kws. strings_Contains lower kw
      then Some \<lparr>TargetField = targetField rule,
                 Value = normalizeValue (Text chunk),
                 SourceRef = SourceID chunk @ '' / '' @ SectionPath chunk,
                 CandidateConfidence = 0.75 * Confidence chunk\<rparr>
      else None)"
  by (induction kws) (simp_all add: Let_def)

lemma mapChunk_rules_eq:
  "mapChunk_rules chunk lower rules =
     (case find (\<lambda>rule. \<exists>kw\<in>set (rule_keywords rule). strings_Contains lower kw) rules of
        None \<Rightarrow> None
      | Some rule \<Rightarrow>
          Some \<lparr>TargetField = targetField rule,
                Value = normalizeValue (Text chunk),
                SourceRef = SourceID chunk @ '' / '' @ SectionPath chunk,
                CandidateConfidence = 0.75 * Confidence chunk\<rparr>)"
  by (induction rules) (simp_all add: mapChunk_keywords_eq)

lemma Map_loop_acc: "Map_loop lib cs acc = acc @ Map_loop lib cs []"
proof (induction cs arbitrary: acc)
  case Nil
  then show ?case by simp
next
  case (Cons c cs)
  show ?case
  proof (cases "mapChunk lib c")
    case None
    then show ?thesis using Cons.IH [of acc] by simp
  next
    case (Some cand)
    then show ?thesis using Cons.IH [of "acc @ [cand]"] Cons.IH [of "[cand]"] by simp
  qed
qed

lemma SchemaMapper_Map_Nil: "SchemaMapper_Map lib [] = []"
  by (simp add: SchemaMapper_Map_def)

lemma SchemaMapper_Map_Cons:
  "SchemaMapper_Map lib (c # cs) =
     (case mapChunk lib c of None \<Rightarrow> [] | Some cand \<Rightarrow> [cand]) @ SchemaMapper_Map lib cs"
proof (cases "mapChunk lib c")
  case None
  then show ?thesis by (simp add: SchemaMapper_Map_def)
next
  case (Some cand)
  then show ?thesis using Map_loop_acc [of lib cs "[cand]"] by (simp add: SchemaMapper_Map_def)
qed

lemma mapChunk_confidence:
  assumes "mapChunk lib chunk = Some candidate"
  shows "CandidateConfidence candidate = 0.75 * Confidence chunk"
  using assms unfolding mapChunk_def mapChunk_rules_eq
  by (auto split: option.splits)

lemma mapChunk_objective:
  "mapChunk sample_lib
     \<lparr>Text = ''objective: ensure encryption'', SourceID = ''doc.md'', SectionPath = ''s2'',
      Confidence = c\<rparr>
   = Some \<lparr>TargetField = ''controls[].objective'', Value = ''objective: ensure encryption'',
           SourceRef = ''doc.md / s2'', CandidateConfidence = 0.75 * c\<rparr>"
  by (simp add: mapChunk_def sample_lib_def ascii_ToLower_def schemaFieldRules_def normalizeValue_def
        strings_Split_def strings_TrimSpace_def TrimLeft_space_def TrimRight_space_def white_space_def
        trim_leading.simps)

lemma mapChunk_title_before_objective:
  "mapChunk sample_lib
     \<lparr>Text = ''Title: Network Policy\<newline>  The objective is TLS.  '', SourceID = ''doc.md'',
      SectionPath = ''Intro'', Confidence = 1\<rparr>
   = Some \<lparr>TargetField = ''metadata.title'', Value = ''Title: Network Policy The objective is TLS.'',
           SourceRef = ''doc.md / Intro'', CandidateConfidence = 0.75\<rparr>"
  by (simp add: mapChunk_def sample_lib_def ascii_ToLower_def schemaFieldRules_def normalizeValue_def
        strings_Split_def strings_TrimSpace_def TrimLeft_space_def TrimRight_space_def white_space_def
        trim_leading.simps)

lemma lorem_has_no_keyword:
  "\<forall>rule\<in>set schemaFieldRules. \<forall>kw\<in>set (rule_keywords rule).
     \<not> strings_Contains (strings_ToLower sample_lib ''Lorem ipsum dolor sit amet'') kw"
  by (simp add: sample_lib_def ascii_ToLower_def schemaFieldRules_def)

section \<open>Evaluation on the examples\<close>

lemmas string_evals =
  strings_HasPrefix_def strings_Split_def strings_SplitN_def strings_TrimLeft_def
  strings_TrimSpace_def TrimLeft_space_def TrimRight_space_def white_space_def trim_leading.simps
  Sprintf_d.simps digit_def

lemmas parser_evals =
  MarkdownParser_def YAMLParser_def KubernetesParser_def NewPipeline_def
  MarkdownParser_CanHandle_def YAMLParser_CanHandle_def KubernetesParser_CanHandle_def
  sample_lib_def ascii_ToLower_def

lemmas parse_evals =
  MarkdownParser_Parse_def MarkdownParser_Parse_lines_def flush_def
  YAMLParser_Parse_def rendered_def
  KubernetesParser_Parse_def parseDocument_def extractSpecChunks_def securityKeys_def
  sample_Unmarshal_map_def sample_Unmarshal_manifest_def
  policy_yaml_def deployment_doc_def service_doc_def Let_def

lemmas mapper_evals =
  SchemaMapper_Map_def mapChunk_def schemaFieldRules_def normalizeValue_def

section \<open>Facts about the pipeline\<close>

lemma selectParser_loop_Inr_iff:
  "selectParser_loop ps source = Inr parser \<longleftrightarrow>
     (\<exists>before after. ps = before @ parser # after
        \<and> (\<forall>q\<in>set before. \<not> CanHandle q source) \<and> CanHandle parser source)"
proof (induction ps)
  case Nil
  then show ?case by simp
next
  case (Cons q qs)
  show ?case
  proof (cases "CanHandle q source")
    case True
    have "(\<exists>before after. q # qs = before @ parser # after
        \<and> (\<forall>q\<in>set before. \<not> CanHandle q source) \<and> CanHandle parser source) \<longleftrightarrow> q = parser"
    proof
      assume "\<exists>before after. q # qs = before @ parser # after
        \<and> (\<forall>q\<in>set before. \<not> CanHandle q source) \<and> CanHandle parser source"
      then obtain before after where split: "q # qs = before @ parser # after"
        and none: "\<forall>q\<in>set before. \<not> CanHandle q source" by blast
      show "q = parser"
      proof (cases before)
        case Nil
        with split show ?thesis by simp
      next
        case (Cons b bs)
        with split have "b = q" by simp
        with Cons none True show ?thesis by simp
      qed
    next
      assume "q = parser"
      then have "q # qs = [] @ parser # qs" by simp
      moreover have "\<forall>q\<in>set []. \<not> CanHandle q source" by simp
      moreover have "CanHandle parser source" using True \<open>q = parser\<close> by simp
      ultimately show "\<exists>before after. q # qs = before @ parser # after
        \<and> (\<forall>q\<in>set before. \<not> CanHandle q source) \<and> CanHandle parser source"
        by blast
    qed
    with True show ?thesis by auto
  next
    case False
    have "(\<exists>before after. q # qs = before @ parser # after
        \<and> (\<forall>q\<in>set before. \<not> CanHandle q source) \<and> CanHandle parser source)
      \<longleftrightarrow> (\<exists>before after. qs = before @ parser # after
        \<and> (\<forall>q\<in>set before. \<not> CanHandle q source) \<and> CanHandle parser source)"
    proof
      assume "\<exists>before after. q # qs = before @ parser # after
        \<and> (\<forall>q\<in>set before. \<not> CanHandle q source) \<and> CanHandle parser source"
      then obtain before after where split: "q # qs = before @ parser # after"
        and none: "\<forall>q\<in>set before. \<not> CanHandle q source" and can: "CanHandle parser source"
        by blast
      show "\<exists>before after. qs = before @ parser # after
        \<and> (\<forall>q\<in>set before. \<not> CanHandle q source) \<and> CanHandle parser source"
      proof (cases before)
        case Nil
        with split have "q = parser" by simp
        with can False show ?thesis by simp
      next
        case (Cons b bs)
        with split have "qs = bs @ parser # after" by simp
        moreover have "\<forall>q\<in>set bs. \<not> CanHandle q source" using none Cons by simp
        ultimately show ?thesis using can by blast
      qed
    next
      assume "\<exists>before after. qs = before @ parser # after
        \<and> (\<forall>q\<in>set before. \<not> CanHandle q source) \<and> CanHandle parser source"
      then obtain before after where split: "qs = before @ parser # after"
        and none: "\<forall>q\<in>set before. \<not> CanHandle q source" and can: "CanHandle parser source"
        by blast
      have "q # qs = (q # before) @ parser # after" using split by simp
      moreover have "\<forall>q\<in>set (q # before). \<not> CanHandle q source" using none False by simp
      ultimately show "\<exists>before after. q # qs = before @ parser # after
        \<and> (\<forall>q\<in>set before. \<not> CanHandle q source) \<and> CanHandle parser source"
        using can by blast
    qed
    with False Cons.IH show ?thesis by simp
  qed
qed



lemma sniffed_CanHandle:
  "\<not> CanHandle (KubernetesParser sample_lib) sniffed_source"
  "CanHandle (MarkdownParser sample_lib) sniffed_source"
  "CanHandle (YAMLParser sample_lib) sniffed_source"
  by (simp_all add: sniffed_source_def parser_evals string_evals)

lemma sniffed_Parse:
  "(MarkdownParser_Parse sniffed_source :: string error + EvidenceChunk list) =
     Inr [\<lparr>Text = ''title: My Policy'', SourceID = ''policy.txt'', SectionPath = ''preamble'',
           Confidence = 0.85\<rparr>,
          \<lparr>Text = ''All systems.'', SourceID = ''policy.txt'', SectionPath = ''Scope'',
           Confidence = 0.85\<rparr>]"
  by (simp add: sniffed_source_def parse_evals string_evals)

lemma sniffed_Map:
  "SchemaMapper_Map sample_lib
     [\<lparr>Text = ''title: My Policy'', SourceID = ''policy.txt'', SectionPath = ''preamble'',
       Confidence = 0.85\<rparr>,
      \<lparr>Text = ''All systems.'', SourceID = ''policy.txt'', SectionPath = ''Scope'',
       Confidence = 0.85\<rparr>]
   = [\<lparr>TargetField = ''metadata.title'', Value = ''title: My Policy'',
       SourceRef = ''policy.txt / preamble'', CandidateConfidence = 0.6375\<rparr>]"
  by (simp add: mapper_evals sample_lib_def ascii_ToLower_def string_evals)







section \<open>Facts about the Kubernetes parser\<close>

lemma KubernetesParser_Parse_loop_eq:
  "KubernetesParser_Parse_loop lib source i docs acc =
     acc @ concat (map (\<lambda>(j, doc). document_chunks lib source j doc) (enumerate i docs))"
proof (induction docs arbitrary: i acc)
  case Nil
  then show ?case by simp
next
  case (Cons doc docs)
  show ?case
  proof (cases "strings_TrimSpace doc = []")
    case True
    then show ?thesis
      using Cons.IH [of "i + 1" acc] by (simp add: document_chunks_def)
  next
    case False
    show ?thesis
    proof (cases "parseDocument lib (strings_TrimSpace doc) (ID source) i")
      case (Inl err)
      with False show ?thesis
        using Cons.IH [of "i + 1" acc] by (simp add: document_chunks_def)
    next
      case (Inr docChunks)
      with False show ?thesis
        using Cons.IH [of "i + 1" "acc @ docChunks"] by (simp add: document_chunks_def)
    qed
  qed
qed

lemma KubernetesParser_Parse_eq:
  "KubernetesParser_Parse lib source =
     Inr (concat (map (\<lambda>(i, doc). document_chunks lib source i doc)
            (enumerate 0 (strings_Split (Content source) ''\<newline>---''))))"
  by (simp add: KubernetesParser_Parse_def KubernetesParser_Parse_loop_eq)

lemma parseDocument_identity:
  assumes "yaml_Unmarshal_manifest lib content = Inr m" and "Kind m \<noteq> []"
  shows "\<exists>path rest. parseDocument lib content sourceID i =
           Inr (\<lparr>Text = ''kind: '' @ Kind m @ ''\<newline>apiVersion: '' @ APIVersion m,
                 SourceID = sourceID, SectionPath = path, Confidence = 0.90\<rparr> # rest)"
  using assms by (cases "Spec m") (simp_all add: parseDocument_def Let_def)

lemma multi_doc_Split:
  "strings_Split multi_doc ''\<newline>---'' = [deployment_doc @ ''\<newline>'', ''\<newline>'' @ service_doc @ ''\<newline>'']"
  by (simp add: multi_doc_def deployment_doc_def service_doc_def strings_Split_def)

lemma multi_doc_TrimSpace:
  "strings_TrimSpace (deployment_doc @ ''\<newline>'') = deployment_doc"
  "strings_TrimSpace (CHR ''\<newline>'' # service_doc @ ''\<newline>'') = service_doc"
  by (simp_all add: deployment_doc_def service_doc_def string_evals)

lemma documents_not_empty: "deployment_doc \<noteq> []" "service_doc \<noteq> []"
  by (simp_all add: deployment_doc_def service_doc_def)

lemma k8s_invalid_Split: "strings_Split ''invalid: [unclosed'' ''\<newline>---'' = [''invalid: [unclosed'']"
  by (simp add: strings_Split_def)

lemma k8s_invalid_TrimSpace: "strings_TrimSpace ''invalid: [unclosed'' = ''invalid: [unclosed''"
  by (simp add: string_evals)

lemma k8s_invalid_fails:
  "parseDocument sample_lib ''invalid: [unclosed'' sid i = Inl (UnmarshalManifest (Library ''cannot decode''))"
  by (simp add: parseDocument_def sample_lib_def sample_Unmarshal_manifest_def deployment_doc_def service_doc_def)

section \<open>Facts about the order of a range\<close>

lemma range_order_Nil: "range_order ord \<Longrightarrow> ord [] = []"
  unfolding range_order_def by (metis mset_zero_iff)

lemma range_order_id: "range_order (\<lambda>entries. entries)"
  by (simp add: range_order_def)

lemma range_order_rev: "range_order rev"
  by (simp add: range_order_def)

section \<open>Facts about the Markdown parser\<close>

lemma flush_fields:
  "md_chunks (flush source st) = md_chunks st @ section_chunks source (currentHeading st) (currentLines st)"
  "currentHeading (flush source st) = currentHeading st"
  "currentLines (flush source st) = currentLines st"
  by (simp_all add: flush_def section_chunks_def Let_def)

lemma with_chunks_before_update:
  "(with_chunks_before A st)\<lparr>currentLines := currentLines (with_chunks_before A st) @ [line]\<rparr>
     = with_chunks_before A (st\<lparr>currentLines := currentLines st @ [line]\<rparr>)"
  "(with_chunks_before A st)\<lparr>currentHeading := heading, currentLines := []\<rparr>
     = with_chunks_before A (st\<lparr>currentHeading := heading, currentLines := []\<rparr>)"
  by (cases st; simp add: with_chunks_before_def)+

lemma flush_shift:
  "flush source (with_chunks_before A st) = with_chunks_before A (flush source st)"
  by (cases st) (simp add: flush_def with_chunks_before_def Let_def)

lemma loop_shift:
  "MarkdownParser_Parse_loop source lines (with_chunks_before A st) =
     with_chunks_before A (MarkdownParser_Parse_loop source lines st)"
proof (induction lines arbitrary: st)
  case Nil
  then show ?case by simp
next
  case (Cons line lines)
  show ?case
  proof (cases "strings_HasPrefix line ''#''")
    case True
    then show ?thesis
      using Cons.IH by (simp add: flush_shift with_chunks_before_update)
  next
    case False
    then show ?thesis
      using Cons.IH by (simp add: with_chunks_before_update)
  qed
qed

lemma loop_append:
  "MarkdownParser_Parse_loop source (xs @ ys) st =
     MarkdownParser_Parse_loop source ys (MarkdownParser_Parse_loop source xs st)"
  by (induction xs arbitrary: st) simp_all

lemma loop_body:
  "\<forall>l\<in>set body. \<not> strings_HasPrefix l ''#'' \<Longrightarrow>
     MarkdownParser_Parse_loop source body st = st\<lparr>currentLines := currentLines st @ body\<rparr>"
  by (induction body arbitrary: st) simp_all

lemma finish_shift:
  "md_chunks (flush source (MarkdownParser_Parse_loop source lines (with_chunks_before A st)))
     = A @ md_chunks (flush source (MarkdownParser_Parse_loop source lines st))"
  by (simp add: loop_shift flush_shift) (simp add: with_chunks_before_def)

lemma Parse_lines_Nil: "MarkdownParser_Parse_lines source [] = []"
  by (simp add: MarkdownParser_Parse_lines_def flush_def strings_TrimSpace_Nil)

lemma flush_init:
  "flush source \<lparr>md_chunks = [], currentHeading = [], currentLines = []\<rparr>
     = \<lparr>md_chunks = [], currentHeading = [], currentLines = []\<rparr>"
  by (simp add: flush_def strings_TrimSpace_Nil)

lemma section_then_rest:
  assumes body: "\<forall>l\<in>set body. \<not> strings_HasPrefix l ''#''"
    and rest: "rest = [] \<or> (\<exists>h' rest'. rest = h' # rest' \<and> strings_HasPrefix h' ''#'')"
    and st: "currentLines st = []"
  shows "md_chunks (flush source (MarkdownParser_Parse_loop source (body @ rest) st))
     = md_chunks st @ section_chunks source (currentHeading st) body
         @ MarkdownParser_Parse_lines source rest"
proof -
  let ?init = "\<lparr>md_chunks = [], currentHeading = [], currentLines = []\<rparr>"
  let ?s3 = "st\<lparr>currentLines := body\<rparr>"
  have s3: "MarkdownParser_Parse_loop source (body @ rest) st = MarkdownParser_Parse_loop source rest ?s3"
    using loop_body [OF body, of source st] st by (simp add: loop_append)
  from rest show ?thesis
  proof
    assume "rest = []"
    then show ?thesis
      using s3 by (simp add: flush_fields Parse_lines_Nil)
  next
    assume "\<exists>h' rest'. rest = h' # rest' \<and> strings_HasPrefix h' ''#''"
    then obtain h' rest' where r: "rest = h' # rest'" and h': "strings_HasPrefix h' ''#''"
      by blast
    let ?A = "md_chunks st @ section_chunks source (currentHeading st) body"
    let ?fresh = "\<lparr>md_chunks = [], currentHeading = strings_TrimSpace (strings_TrimLeft h' ''#''),
                   currentLines = []\<rparr>"
    have step: "(flush source ?s3)\<lparr>currentHeading := strings_TrimSpace (strings_TrimLeft h' ''#''),
                 currentLines := []\<rparr> = with_chunks_before ?A ?fresh"
      by (cases st) (simp add: flush_def section_chunks_def Let_def with_chunks_before_def)
    have "md_chunks (flush source (MarkdownParser_Parse_loop source rest ?s3))
        = md_chunks (flush source (MarkdownParser_Parse_loop source rest'
            (with_chunks_before ?A ?fresh)))"
      using r h' step by simp
    also have "\<dots> = ?A @ md_chunks (flush source (MarkdownParser_Parse_loop source rest' ?fresh))"
      by (rule finish_shift)
    also have "md_chunks (flush source (MarkdownParser_Parse_loop source rest' ?fresh))
        = MarkdownParser_Parse_lines source rest"
      using r h' by (simp add: MarkdownParser_Parse_lines_def flush_init)
    finally show ?thesis
      using s3 by simp
  qed
qed

lemma heading_section:
  assumes h: "strings_HasPrefix h ''#''"
    and body: "\<forall>l\<in>set body. \<not> strings_HasPrefix l ''#''"
    and rest: "rest = [] \<or> (\<exists>h' rest'. rest = h' # rest' \<and> strings_HasPrefix h' ''#'')"
  shows "MarkdownParser_Parse_lines source (before @ h # body @ rest)
     = MarkdownParser_Parse_lines source before
         @ section_chunks source (strings_TrimSpace (strings_TrimLeft h ''#'')) body
         @ MarkdownParser_Parse_lines source rest"
proof -
  let ?init = "\<lparr>md_chunks = [], currentHeading = [], currentLines = []\<rparr>"
  let ?s1 = "MarkdownParser_Parse_loop source before ?init"
  let ?s2 = "(flush source ?s1)\<lparr>currentHeading := strings_TrimSpace (strings_TrimLeft h ''#''),
                 currentLines := []\<rparr>"
  have "MarkdownParser_Parse_loop source (before @ h # body @ rest) ?init
      = MarkdownParser_Parse_loop source (body @ rest) ?s2"
    using h by (simp add: loop_append)
  moreover have "md_chunks (flush source (MarkdownParser_Parse_loop source (body @ rest) ?s2))
      = md_chunks ?s2 @ section_chunks source (currentHeading ?s2) body
          @ MarkdownParser_Parse_lines source rest"
    by (rule section_then_rest [OF body rest]) simp
  ultimately show ?thesis
    by (simp add: MarkdownParser_Parse_lines_def)
qed

lemma preamble_section:
  assumes body: "\<forall>l\<in>set body. \<not> strings_HasPrefix l ''#''"
    and rest: "rest = [] \<or> (\<exists>h' rest'. rest = h' # rest' \<and> strings_HasPrefix h' ''#'')"
  shows "MarkdownParser_Parse_lines source (body @ rest)
     = section_chunks source [] body @ MarkdownParser_Parse_lines source rest"
  using section_then_rest [OF body rest, of "\<lparr>md_chunks = [], currentHeading = [], currentLines = []\<rparr>" source]
  by (simp add: MarkdownParser_Parse_lines_def)

lemma section_one_Parse:
  "(MarkdownParser_Parse section_one_source :: 'e error + EvidenceChunk list) =
     Inr [\<lparr>Text = ''Content of section one.'', SourceID = ''test.md'', SectionPath = ''Section One'',
           Confidence = 0.85\<rparr>,
          \<lparr>Text = ''More content here.'', SourceID = ''test.md'', SectionPath = ''Subsection'',
           Confidence = 0.85\<rparr>,
          \<lparr>Text = ''Another section.'', SourceID = ''test.md'', SectionPath = ''Section Two'',
           Confidence = 0.85\<rparr>]"
  by (simp add: section_one_source_def parse_evals string_evals)

lemma preamble_Split:
  "strings_Split (Content preamble_source) ''\<newline>''
     = [''This is a preamble.'', []] @ ''# First Section'' # [''Section content.''] @ []"
  by (simp add: preamble_source_def strings_Split_def)

lemma order_only_matters_for_YAML:
  "Parse (MarkdownParser lib) ord1 source = Parse (MarkdownParser lib) ord2 source"
  "Parse (KubernetesParser lib) ord1 source = Parse (KubernetesParser lib) ord2 source"
  by (simp_all add: MarkdownParser_def KubernetesParser_def)

section \<open>Facts about the chunks of the parsers\<close>

lemma colon_not_white_space: "CHR '':'' \<notin> \<Union> (set ` set white_space)"
  by (simp add: white_space_def)

lemma colon_TrimSpace:
  assumes "CHR '':'' \<in> set t"
  shows "strings_TrimSpace t \<noteq> []"
proof -
  have "CHR '':'' \<in> set (strings_TrimSpace t)"
    using assms colon_not_white_space by (rule strings_TrimSpace_keeps)
  then show ?thesis by auto
qed

lemma flush_chunks_invariant:
  assumes "\<forall>c\<in>set (md_chunks st). Text c \<noteq> [] \<and> strings_TrimSpace (Text c) = Text c \<and> Confidence c = 0.85"
  shows "\<forall>c\<in>set (md_chunks (flush source st)).
           Text c \<noteq> [] \<and> strings_TrimSpace (Text c) = Text c \<and> Confidence c = 0.85"
  using assms by (auto simp: flush_def Let_def strings_TrimSpace_idem)

lemma loop_chunks_invariant:
  assumes "\<forall>c\<in>set (md_chunks st). Text c \<noteq> [] \<and> strings_TrimSpace (Text c) = Text c \<and> Confidence c = 0.85"
  shows "\<forall>c\<in>set (md_chunks (MarkdownParser_Parse_loop source lines st)).
           Text c \<noteq> [] \<and> strings_TrimSpace (Text c) = Text c \<and> Confidence c = 0.85"
  using assms
proof (induction lines arbitrary: st)
  case Nil
  show ?case
    unfolding MarkdownParser_Parse_loop.simps by (rule Nil.prems)
next
  case (Cons line lines)
  show ?case
  proof (cases "strings_HasPrefix line ''#''")
    case True
    let ?st = "(flush source st)\<lparr>currentHeading := strings_TrimSpace (strings_TrimLeft line ''#''),
                 currentLines := []\<rparr>"
    have step: "MarkdownParser_Parse_loop source (line # lines) st
        = MarkdownParser_Parse_loop source lines ?st"
      using True by simp
    have same: "md_chunks ?st = md_chunks (flush source st)"
      by simp
    have "\<forall>c\<in>set (md_chunks ?st). Text c \<noteq> [] \<and> strings_TrimSpace (Text c) = Text c \<and> Confidence c = 0.85"
      unfolding same by (rule flush_chunks_invariant [OF Cons.prems])
    then show ?thesis
      unfolding step by (rule Cons.IH)
  next
    case False
    let ?st = "st\<lparr>currentLines := currentLines st @ [line]\<rparr>"
    have step: "MarkdownParser_Parse_loop source (line # lines) st
        = MarkdownParser_Parse_loop source lines ?st"
      using False by simp
    have same: "md_chunks ?st = md_chunks st"
      by simp
    have "\<forall>c\<in>set (md_chunks ?st). Text c \<noteq> [] \<and> strings_TrimSpace (Text c) = Text c \<and> Confidence c = 0.85"
      unfolding same by (rule Cons.prems)
    then show ?thesis
      unfolding step by (rule Cons.IH)
  qed
qed

lemma MarkdownParser_chunks:
  assumes "MarkdownParser_Parse source = Inr cs" and "c \<in> set cs"
  shows "Text c \<noteq> [] \<and> strings_TrimSpace (Text c) = Text c \<and> Confidence c = 0.85"
proof -
  let ?init = "\<lparr>md_chunks = [], currentHeading = [], currentLines = []\<rparr>"
  have "\<forall>c\<in>set (md_chunks ?init). Text c \<noteq> [] \<and> strings_TrimSpace (Text c) = Text c \<and> Confidence c = 0.85"
    by simp
  then have "\<forall>c\<in>set (md_chunks
        (MarkdownParser_Parse_loop source (strings_Split (Content source) ''\<newline>'') ?init)).
      Text c \<noteq> [] \<and> strings_TrimSpace (Text c) = Text c \<and> Confidence c = 0.85"
    by (rule loop_chunks_invariant)
  then have "\<forall>c\<in>set (md_chunks (flush source
        (MarkdownParser_Parse_loop source (strings_Split (Content source) ''\<newline>'') ?init))).
      Text c \<noteq> [] \<and> strings_TrimSpace (Text c) = Text c \<and> Confidence c = 0.85"
    by (rule flush_chunks_invariant)
  then show ?thesis
    using assms by (auto simp: MarkdownParser_Parse_def MarkdownParser_Parse_lines_def)
qed

lemma YAMLParser_loop_chunks:
  assumes "c \<in> set (YAMLParser_Parse_loop lib source entries acc)"
  shows "c \<in> set acc \<or> (CHR '':'' \<in> set (Text c) \<and> Confidence c = 0.80)"
  using assms
proof (induction entries arbitrary: acc)
  case Nil
  then show ?case by simp
next
  case (Cons entry entries)
  obtain key val where entry: "entry = (key, val)"
    by (cases entry)
  from Cons.prems have "c \<in> set (YAMLParser_Parse_loop lib source entries
      (acc @ [\<lparr>Text = key @ '': '' @ strings_TrimSpace (rendered lib val),
                SourceID = ID source, SectionPath = key, Confidence = 0.80\<rparr>]))"
    by (simp add: entry)
  from Cons.IH [OF this] show ?case by auto
qed

lemma YAMLParser_chunks:
  assumes "YAMLParser_Parse lib ord source = Inr cs" and "c \<in> set cs"
  shows "CHR '':'' \<in> set (Text c) \<and> Confidence c = 0.80"
proof -
  from assms obtain doc where "c \<in> set (YAMLParser_Parse_loop lib source (ord doc) [])"
    by (auto simp: YAMLParser_Parse_def split: sum.splits)
  then show ?thesis
    using YAMLParser_loop_chunks by fastforce
qed

lemma extractSpecChunks_loop_chunks:
  assumes "c \<in> set (extractSpecChunks_loop lib spec sourceID resourceRef keys acc)"
  shows "c \<in> set acc \<or> (CHR '':'' \<in> set (Text c) \<and> Confidence c = 0.88)"
  using assms
proof (induction keys arbitrary: acc)
  case Nil
  then show ?case by simp
next
  case (Cons key keys)
  show ?case
  proof (cases "spec key")
    case None
    then show ?thesis using Cons.IH [of acc] Cons.prems by simp
  next
    case (Some val)
    with Cons.prems have "c \<in> set (extractSpecChunks_loop lib spec sourceID resourceRef keys
        (acc @ [\<lparr>Text = key @ '':\<newline>'' @ strings_TrimSpace (rendered lib val),
                  SourceID = sourceID, SectionPath = resourceRef @ '' / spec.'' @ key,
                  Confidence = 0.88\<rparr>]))"
      by simp
    from Cons.IH [OF this] show ?thesis by auto
  qed
qed

lemma parseDocument_chunks:
  assumes "parseDocument lib content sourceID i = Inr cs" and "c \<in> set cs"
  shows "CHR '':'' \<in> set (Text c) \<and> (Confidence c = 0.90 \<or> Confidence c = 0.88)"
proof -
  from assms(1) obtain m where m: "yaml_Unmarshal_manifest lib content = Inr m"
    by (auto simp: parseDocument_def split: sum.splits)
  show ?thesis
  proof (cases "Spec m")
    case None
    with assms m show ?thesis
      by (auto simp: parseDocument_def Let_def split: if_splits)
  next
    case (Some spec)
    with assms m show ?thesis
      by (auto simp: parseDocument_def Let_def extractSpecChunks_def split: if_splits
            dest!: extractSpecChunks_loop_chunks)
  qed
qed

lemma KubernetesParser_chunks:
  assumes "KubernetesParser_Parse lib source = Inr cs" and "c \<in> set cs"
  shows "CHR '':'' \<in> set (Text c) \<and> (Confidence c = 0.90 \<or> Confidence c = 0.88)"
proof -
  from assms have "c \<in> set (concat (map (\<lambda>(i, doc). document_chunks lib source i doc)
      (enumerate 0 (strings_Split (Content source) ''\<newline>---''))))"
    by (simp add: KubernetesParser_Parse_eq)
  then obtain x where "c \<in> set ((\<lambda>(i, doc). document_chunks lib source i doc) x)"
    by auto
  then obtain i doc where in_doc: "c \<in> set (document_chunks lib source i doc)"
    by (cases x) auto
  show ?thesis
  proof (cases "parseDocument lib (strings_TrimSpace doc) (ID source) i")
    case (Inl err)
    with in_doc show ?thesis
      by (simp add: document_chunks_def split: if_splits)
  next
    case (Inr cs')
    with in_doc have "c \<in> set cs'"
      by (simp add: document_chunks_def split: if_splits)
    with Inr show ?thesis
      by (rule parseDocument_chunks)
  qed
qed

lemma SchemaMapper_Map_source:
  assumes "cand \<in> set (SchemaMapper_Map lib cs)"
  shows "\<exists>c\<in>set cs. mapChunk lib c = Some cand"
  using assms
proof (induction cs)
  case Nil
  then show ?case by (simp add: SchemaMapper_Map_Nil)
next
  case (Cons c cs)
  then show ?case
    by (auto simp: SchemaMapper_Map_Cons split: option.splits)
qed

lemma pod_Parse:
  "KubernetesParser_Parse sample_lib pod_source
     = Inr [\<lparr>Text = ''kind: Pod\<newline>apiVersion: '', SourceID = ''pod.yaml'',
             SectionPath = ''Pod/ / identity'', Confidence = 0.9\<rparr>]"
  by (simp add: pod_source_def parse_evals sample_lib_def string_evals)

section \<open>The claims\<close>

subsection \<open>C2: the confidence of a candidate\<close>

text \<open>
  C2, as amended. For every chunk for which the mapper produces a candidate, the
  candidate's confidence is 0.75 times the chunk's confidence; when the chunk's confidence
  is positive, the candidate's confidence is positive and not above the chunk's. (As
  stated, the claim promises the bounds for every chunk.)
\<close>

theorem C2_confidence_product:
  assumes "mapChunk lib chunk = Some candidate"
  shows "CandidateConfidence candidate = 0.75 * Confidence chunk
         \<and> (0 < Confidence chunk \<longrightarrow>
              0 < CandidateConfidence candidate \<and> CandidateConfidence candidate \<le> Confidence chunk)"
  using mapChunk_confidence [OF assms] by simp

theorem C2_confidence_product_witness:
  "mapChunk sample_lib
     \<lparr>Text = ''objective: ensure encryption'', SourceID = ''doc.md'', SectionPath = ''s2'',
      Confidence = 0.5\<rparr>
   = Some \<lparr>TargetField = ''controls[].objective'', Value = ''objective: ensure encryption'',
           SourceRef = ''doc.md / s2'', CandidateConfidence = 0.375\<rparr>
   \<and> (0::real) < 0.5
   \<and> CandidateConfidence
         \<lparr>TargetField = ''controls[].objective'', Value = ''objective: ensure encryption'',
          SourceRef = ''doc.md / s2'', CandidateConfidence = 0.375\<rparr> = 0.75 * 0.5
   \<and> (0::real) < 0.375 \<and> (0.375::real) \<le> 0.5"
  using C2_confidence_product [OF mapChunk_objective [of "0.5"]] mapChunk_objective [of "0.5"]
  by simp

text \<open>
  The claim as stated fails at a chunk of confidence 0, a value of the documented range
  0.0 to 1.0: the mapper produces a candidate, of confidence 0, which is not positive.
\<close>

theorem C2_zero_confidence_counterexample:
  "mapChunk sample_lib
     \<lparr>Text = ''objective: ensure encryption'', SourceID = ''doc.md'', SectionPath = ''s2'',
      Confidence = 0\<rparr>
   = Some \<lparr>TargetField = ''controls[].objective'', Value = ''objective: ensure encryption'',
           SourceRef = ''doc.md / s2'', CandidateConfidence = 0\<rparr>
   \<and> \<not> (0 < CandidateConfidence
               \<lparr>TargetField = ''controls[].objective'', Value = ''objective: ensure encryption'',
                SourceRef = ''doc.md / s2'', CandidateConfidence = 0\<rparr>)"
  using mapChunk_objective [of 0] by simp

subsection \<open>C3: the first matching rule wins\<close>

text \<open>
  C3. For every chunk, \<open>mapChunk\<close> lower-cases the text and returns the candidate of the
  first rule of \<open>schemaFieldRules\<close>, in table order, that has a keyword occurring in the
  lower-cased text, with that rule's target field; a chunk therefore maps to at most one
  candidate, and a chunk whose lower-cased text contains no keyword of any rule produces
  no candidate.
\<close>

theorem C3_first_rule_wins:
  "mapChunk lib chunk =
     (case first_matching_rule (strings_ToLower lib (Text chunk)) schemaFieldRules of
        None \<Rightarrow> None
      | Some rule \<Rightarrow>
          Some \<lparr>TargetField = targetField rule,
                Value = normalizeValue (Text chunk),
                SourceRef = SourceID chunk @ '' / '' @ SectionPath chunk,
                CandidateConfidence = 0.75 * Confidence chunk\<rparr>)
   \<and> length (SchemaMapper_Map lib [chunk]) \<le> 1
   \<and> ((\<forall>rule\<in>set schemaFieldRules. \<forall>kw\<in>set (rule_keywords rule).
          \<not> strings_Contains (strings_ToLower lib (Text chunk)) kw)
        \<longrightarrow> mapChunk lib chunk = None \<and> SchemaMapper_Map lib [chunk] = [])"
proof -
  have eq: "mapChunk lib chunk =
     (case first_matching_rule (strings_ToLower lib (Text chunk)) schemaFieldRules of
        None \<Rightarrow> None
      | Some rule \<Rightarrow>
          Some \<lparr>TargetField = targetField rule,
                Value = normalizeValue (Text chunk),
                SourceRef = SourceID chunk @ '' / '' @ SectionPath chunk,
                CandidateConfidence = 0.75 * Confidence chunk\<rparr>)"
    by (simp add: mapChunk_def mapChunk_rules_eq first_matching_rule_def)
  have len: "length (SchemaMapper_Map lib [chunk]) \<le> 1"
    by (simp add: SchemaMapper_Map_Cons SchemaMapper_Map_Nil split: option.splits)
  have miss: "mapChunk lib chunk = None \<and> SchemaMapper_Map lib [chunk] = []"
    if "\<forall>rule\<in>set schemaFieldRules. \<forall>kw\<in>set (rule_keywords rule).
          \<not> strings_Contains (strings_ToLower lib (Text chunk)) kw"
  proof -
    from that have "first_matching_rule (strings_ToLower lib (Text chunk)) schemaFieldRules = None"
      by (auto simp: first_matching_rule_def find_None_iff)
    then have "mapChunk lib chunk = None"
      using eq by simp
    then show ?thesis
      by (simp add: SchemaMapper_Map_Cons SchemaMapper_Map_Nil)
  qed
  show ?thesis
    using eq len miss by blast
qed

text \<open>
  A text with \<open>title:\<close> (second rule) and \<open>objective\<close> (fourth rule) maps to the second
  rule's field only, and the text of \<open>TestSchemaMapper_Map\<close> without a keyword maps to
  nothing.
\<close>

theorem C3_first_rule_wins_witness:
  "first_matching_rule
     (strings_ToLower sample_lib ''Title: Network Policy\<newline>  The objective is TLS.  '')
     schemaFieldRules
   = Some \<lparr>rule_keywords = [''title:'', ''name:'', ''policy name'', ''control name''],
           targetField = ''metadata.title''\<rparr>
   \<and> SchemaMapper_Map sample_lib
       [\<lparr>Text = ''Title: Network Policy\<newline>  The objective is TLS.  '', SourceID = ''doc.md'',
         SectionPath = ''Intro'', Confidence = 1\<rparr>]
     = [\<lparr>TargetField = ''metadata.title'', Value = ''Title: Network Policy The objective is TLS.'',
         SourceRef = ''doc.md / Intro'', CandidateConfidence = 0.75\<rparr>]
   \<and> SchemaMapper_Map sample_lib
       [\<lparr>Text = ''Lorem ipsum dolor sit amet'', SourceID = ''doc.md'', SectionPath = ''random'',
         Confidence = 1\<rparr>] = []"
proof -
  have first: "first_matching_rule
     (strings_ToLower sample_lib ''Title: Network Policy\<newline>  The objective is TLS.  '')
     schemaFieldRules
   = Some \<lparr>rule_keywords = [''title:'', ''name:'', ''policy name'', ''control name''],
           targetField = ''metadata.title''\<rparr>"
    by (simp add: first_matching_rule_def sample_lib_def ascii_ToLower_def schemaFieldRules_def)
  have hit: "SchemaMapper_Map sample_lib
       [\<lparr>Text = ''Title: Network Policy\<newline>  The objective is TLS.  '', SourceID = ''doc.md'',
         SectionPath = ''Intro'', Confidence = 1\<rparr>]
     = [\<lparr>TargetField = ''metadata.title'', Value = ''Title: Network Policy The objective is TLS.'',
         SourceRef = ''doc.md / Intro'', CandidateConfidence = 0.75\<rparr>]"
    by (simp add: SchemaMapper_Map_Cons SchemaMapper_Map_Nil mapChunk_title_before_objective)
  have miss: "SchemaMapper_Map sample_lib
       [\<lparr>Text = ''Lorem ipsum dolor sit amet'', SourceID = ''doc.md'', SectionPath = ''random'',
         Confidence = 1\<rparr>] = []"
    using C3_first_rule_wins
      [of sample_lib "\<lparr>Text = ''Lorem ipsum dolor sit amet'', SourceID = ''doc.md'',
          SectionPath = ''random'', Confidence = 1\<rparr>"]
      lorem_has_no_keyword
    by simp
  show ?thesis
    using first hit miss by simp
qed

subsection \<open>C4: the first parser that can handle the source is used\<close>

text \<open>
  C4. Parser selection is first-match-wins: \<open>selectParser\<close> returns a parser exactly when
  it is the first one, in registration order, whose \<open>CanHandle\<close> is true for the source;
  \<open>RunWithMeta\<close> then parses with that parser and no other, and a successful result
  reports that parser's \<open>Name\<close> as \<open>ParserUsed\<close>.
\<close>

theorem C4_first_match_wins:
  "(selectParser p source = Inr parser \<longleftrightarrow>
      (\<exists>before after. parsers p = before @ parser # after
         \<and> (\<forall>q\<in>set before. \<not> CanHandle q source) \<and> CanHandle parser source))
   \<and> (selectParser p source = Inr parser \<longrightarrow>
        RunWithMeta lib p r source =
          (case Parse parser r source of
             Inl err \<Rightarrow> Inl (ParserFailed (Name parser) err)
           | Inr chunks \<Rightarrow>
               Inr \<lparr>Candidates = SchemaMapper_Map lib chunks,
                    ParserUsed = Name parser,
                    ChunkCount = length chunks\<rparr>))
   \<and> (\<forall>result. RunWithMeta lib p r source = Inr result \<longrightarrow>
        (\<exists>before parser after. parsers p = before @ parser # after
           \<and> (\<forall>q\<in>set before. \<not> CanHandle q source) \<and> CanHandle parser source
           \<and> ParserUsed result = Name parser))"
proof -
  have sel: "selectParser p source = Inr parser \<longleftrightarrow>
      (\<exists>before after. parsers p = before @ parser # after
         \<and> (\<forall>q\<in>set before. \<not> CanHandle q source) \<and> CanHandle parser source)" for parser
    unfolding selectParser_def by (rule selectParser_loop_Inr_iff)
  have run: "RunWithMeta lib p r source =
          (case Parse parser r source of
             Inl err \<Rightarrow> Inl (ParserFailed (Name parser) err)
           | Inr chunks \<Rightarrow>
               Inr \<lparr>Candidates = SchemaMapper_Map lib chunks,
                    ParserUsed = Name parser,
                    ChunkCount = length chunks\<rparr>)"
    if "selectParser p source = Inr parser"
    using that by (simp add: RunWithMeta_def)
  have used: "\<exists>before parser after. parsers p = before @ parser # after
           \<and> (\<forall>q\<in>set before. \<not> CanHandle q source) \<and> CanHandle parser source
           \<and> ParserUsed result = Name parser"
    if ok: "RunWithMeta lib p r source = Inr result" for result
  proof -
    from ok obtain q where q: "selectParser p source = Inr q"
      by (cases "selectParser p source") (auto simp: RunWithMeta_def)
    with ok have "ParserUsed result = Name q"
      by (auto simp: RunWithMeta_def split: sum.splits)
    moreover from q obtain before after where "parsers p = before @ q # after"
      "\<forall>q\<in>set before. \<not> CanHandle q source" "CanHandle q source"
      using sel [of q] by blast
    ultimately show ?thesis by blast
  qed
  show ?thesis
    using sel [of parser] run used by blast
qed

text \<open>
  The Kubernetes, Markdown and YAML parsers registered in this order, and a source that
  Markdown and YAML both claim: Markdown, registered first, is used.
\<close>

theorem C4_first_match_wins_witness:
  "\<not> CanHandle (KubernetesParser sample_lib) sniffed_source
   \<and> CanHandle (MarkdownParser sample_lib) sniffed_source
   \<and> CanHandle (YAMLParser sample_lib) sniffed_source
   \<and> selectParser
        (NewPipeline [KubernetesParser sample_lib, MarkdownParser sample_lib, YAMLParser sample_lib])
        sniffed_source = Inr (MarkdownParser sample_lib)
   \<and> RunWithMeta sample_lib
        (NewPipeline [KubernetesParser sample_lib, MarkdownParser sample_lib, YAMLParser sample_lib])
        (\<lambda>entries. entries) sniffed_source
      = Inr \<lparr>Candidates =
               [\<lparr>TargetField = ''metadata.title'', Value = ''title: My Policy'',
                 SourceRef = ''policy.txt / preamble'', CandidateConfidence = 0.6375\<rparr>],
             ParserUsed = ''markdown'', ChunkCount = 2\<rparr>"
proof -
  let ?p = "NewPipeline [KubernetesParser sample_lib, MarkdownParser sample_lib, YAMLParser sample_lib]"
  note c4 = C4_first_match_wins
    [of ?p sniffed_source "MarkdownParser sample_lib" sample_lib "\<lambda>entries. entries"]
  have "parsers ?p = [KubernetesParser sample_lib] @ MarkdownParser sample_lib # [YAMLParser sample_lib]"
    by (simp add: NewPipeline_def)
  moreover have "\<forall>q\<in>set [KubernetesParser sample_lib]. \<not> CanHandle q sniffed_source"
    using sniffed_CanHandle(1) by simp
  ultimately have sel: "selectParser ?p sniffed_source = Inr (MarkdownParser sample_lib)"
    using c4 sniffed_CanHandle(2) by blast
  then have "RunWithMeta sample_lib ?p (\<lambda>entries. entries) sniffed_source =
      (case Parse (MarkdownParser sample_lib) (\<lambda>entries. entries) sniffed_source of
         Inl err \<Rightarrow> Inl (ParserFailed (Name (MarkdownParser sample_lib)) err)
       | Inr chunks \<Rightarrow>
           Inr \<lparr>Candidates = SchemaMapper_Map sample_lib chunks,
                ParserUsed = Name (MarkdownParser sample_lib),
                ChunkCount = length chunks\<rparr>)"
    using c4 by blast
  then have "RunWithMeta sample_lib ?p (\<lambda>entries. entries) sniffed_source
      = Inr \<lparr>Candidates =
               [\<lparr>TargetField = ''metadata.title'', Value = ''title: My Policy'',
                 SourceRef = ''policy.txt / preamble'', CandidateConfidence = 0.6375\<rparr>],
             ParserUsed = ''markdown'', ChunkCount = 2\<rparr>"
    using sniffed_Parse sniffed_Map by (simp add: MarkdownParser_def)
  with sel sniffed_CanHandle show ?thesis by simp
qed

subsection \<open>C5: the unsupported-format error\<close>




subsection \<open>C6: empty content\<close>

text \<open>
  C6. For each of the three parsers of the package, \<open>Parse\<close> applied to a source with
  empty content returns an empty chunk sequence and no error. For the YAML parser this
  rests on the library: \<open>yaml.Unmarshal\<close> of empty input succeeds with an empty map.
\<close>

theorem C6_empty_content:
  fixes lib :: "('v, 'e) go_lib"
  assumes "yaml_Unmarshal_map lib [] = Inr []" and "range_order ord"
  shows "(MarkdownParser_Parse (source\<lparr>Content := []\<rparr>) :: 'e error + EvidenceChunk list) = Inr []
         \<and> YAMLParser_Parse lib ord (source\<lparr>Content := []\<rparr>) = Inr []
         \<and> KubernetesParser_Parse lib (source\<lparr>Content := []\<rparr>) = Inr []
         \<and> (\<forall>parser\<in>{MarkdownParser lib, YAMLParser lib, KubernetesParser lib}.
              Parse parser ord (source\<lparr>Content := []\<rparr>) = Inr [])"
proof -
  have md: "(MarkdownParser_Parse (source\<lparr>Content := []\<rparr>) :: 'e error + EvidenceChunk list) = Inr []"
    by (simp add: MarkdownParser_Parse_def MarkdownParser_Parse_lines_def strings_Split_Nil flush_def
          strings_HasPrefix_def strings_TrimSpace_Nil)
  have yaml: "YAMLParser_Parse lib ord (source\<lparr>Content := []\<rparr>) = Inr []"
    using assms by (simp add: YAMLParser_Parse_def range_order_Nil)
  have k8s: "KubernetesParser_Parse lib (source\<lparr>Content := []\<rparr>) = Inr []"
    by (simp add: KubernetesParser_Parse_def strings_Split_Nil strings_TrimSpace_Nil)
  show ?thesis
    using md yaml k8s by (simp add: MarkdownParser_def YAMLParser_def KubernetesParser_def)
qed

theorem C6_empty_content_witness:
  "yaml_Unmarshal_map sample_lib [] = Inr [] \<and> range_order (rev :: (string \<times> string) list \<Rightarrow> _)
   \<and> (MarkdownParser_Parse \<lparr>Content = [], Format = ''markdown'', ID = ''empty.md''\<rparr>
        :: string error + EvidenceChunk list) = Inr []
   \<and> YAMLParser_Parse sample_lib rev \<lparr>Content = [], Format = ''markdown'', ID = ''empty.md''\<rparr> = Inr []
   \<and> KubernetesParser_Parse sample_lib \<lparr>Content = [], Format = ''markdown'', ID = ''empty.md''\<rparr> = Inr []"
proof -
  have dec: "yaml_Unmarshal_map sample_lib [] = Inr []"
    by (simp add: sample_lib_def sample_Unmarshal_map_def)
  show ?thesis
    using C6_empty_content [OF dec range_order_rev,
        of "\<lparr>Content = ''x'', Format = ''markdown'', ID = ''empty.md''\<rparr>"] dec range_order_rev
    by simp
qed

subsection \<open>C7: multi-document manifests\<close>

text \<open>
  C7. \<open>KubernetesParser.Parse\<close> splits the content at the document separator (a newline
  followed by \<open>---\<close>) and parses each piece on its own: the result is the concatenation of
  what the pieces contribute, a piece that fails to decode contributes nothing and
  causes no error, and for the Deployment and the Service joined by a separator (decoded
  to these kinds) the chunks include a text with \<open>kind: Deployment\<close> and a text with
  \<open>kind: Service\<close>.
\<close>

theorem C7_multi_document:
  "KubernetesParser_Parse lib source =
     Inr (concat (map (\<lambda>(i, doc). document_chunks lib source i doc)
            (enumerate 0 (strings_Split (Content source) ''\<newline>---''))))
   \<and> (\<forall>i doc. (\<exists>err. parseDocument lib (strings_TrimSpace doc) (ID source) i = Inl err)
         \<longrightarrow> document_chunks lib source i doc = [])
   \<and> (yaml_Unmarshal_manifest lib deployment_doc = Inr m1 \<and> Kind m1 = ''Deployment''
       \<and> yaml_Unmarshal_manifest lib service_doc = Inr m2 \<and> Kind m2 = ''Service''
       \<longrightarrow> (\<exists>chunks. KubernetesParser_Parse lib (source\<lparr>Content := multi_doc\<rparr>) = Inr chunks
              \<and> (\<exists>c\<in>set chunks. strings_Contains (Text c) ''kind: Deployment'')
              \<and> (\<exists>c\<in>set chunks. strings_Contains (Text c) ''kind: Service'')))"
proof -
  have skip: "document_chunks lib source i doc = []"
    if "\<exists>err. parseDocument lib (strings_TrimSpace doc) (ID source) i = Inl err" for i doc
    using that by (auto simp: document_chunks_def)
  have both: "\<exists>chunks. KubernetesParser_Parse lib (source\<lparr>Content := multi_doc\<rparr>) = Inr chunks
              \<and> (\<exists>c\<in>set chunks. strings_Contains (Text c) ''kind: Deployment'')
              \<and> (\<exists>c\<in>set chunks. strings_Contains (Text c) ''kind: Service'')"
    if m1: "yaml_Unmarshal_manifest lib deployment_doc = Inr m1" "Kind m1 = ''Deployment''"
      and m2: "yaml_Unmarshal_manifest lib service_doc = Inr m2" "Kind m2 = ''Service''"
  proof -
    let ?src = "source\<lparr>Content := multi_doc\<rparr>"
    from m1 obtain path1 rest1 where d1: "parseDocument lib deployment_doc (ID ?src) 0 =
        Inr (\<lparr>Text = ''kind: '' @ Kind m1 @ ''\<newline>apiVersion: '' @ APIVersion m1,
              SourceID = ID ?src, SectionPath = path1, Confidence = 0.90\<rparr> # rest1)"
      using parseDocument_identity [of lib deployment_doc m1 "ID ?src" 0] by auto
    from m2 obtain path2 rest2 where d2: "parseDocument lib service_doc (ID ?src) 1 =
        Inr (\<lparr>Text = ''kind: '' @ Kind m2 @ ''\<newline>apiVersion: '' @ APIVersion m2,
              SourceID = ID ?src, SectionPath = path2, Confidence = 0.90\<rparr> # rest2)"
      using parseDocument_identity [of lib service_doc m2 "ID ?src" 1] by auto
    let ?c1 = "\<lparr>Text = ''kind: '' @ Kind m1 @ ''\<newline>apiVersion: '' @ APIVersion m1,
              SourceID = ID ?src, SectionPath = path1, Confidence = 0.90\<rparr>"
    let ?c2 = "\<lparr>Text = ''kind: '' @ Kind m2 @ ''\<newline>apiVersion: '' @ APIVersion m2,
              SourceID = ID ?src, SectionPath = path2, Confidence = 0.90\<rparr>"
    have parse: "KubernetesParser_Parse lib ?src = Inr ((?c1 # rest1) @ (?c2 # rest2))"
      using d1 d2
      by (simp add: KubernetesParser_Parse_eq multi_doc_Split enumerate_simps document_chunks_def
            multi_doc_TrimSpace documents_not_empty)
    have "Text ?c1 = [] @ ''kind: Deployment'' @ (''\<newline>apiVersion: '' @ APIVersion m1)"
      using m1(2) by simp
    then have t1: "strings_Contains (Text ?c1) ''kind: Deployment''"
      using strings_Contains_append by metis
    have "Text ?c2 = [] @ ''kind: Service'' @ (''\<newline>apiVersion: '' @ APIVersion m2)"
      using m2(2) by simp
    then have t2: "strings_Contains (Text ?c2) ''kind: Service''"
      using strings_Contains_append by metis
    have "?c1 \<in> set ((?c1 # rest1) @ (?c2 # rest2))" "?c2 \<in> set ((?c1 # rest1) @ (?c2 # rest2))"
      by simp_all
    with parse t1 t2 show ?thesis by blast
  qed
  show ?thesis
    using KubernetesParser_Parse_eq [of lib source] skip both by blast
qed

theorem C7_multi_document_witness:
  "KubernetesParser_Parse sample_lib \<lparr>Content = multi_doc, Format = [], ID = ''multi.yaml''\<rparr>
     = Inr [\<lparr>Text = ''kind: Deployment\<newline>apiVersion: apps/v1'', SourceID = ''multi.yaml'',
             SectionPath = ''Deployment/my-app (doc 0) / identity'', Confidence = 0.9\<rparr>,
            \<lparr>Text = ''securityContext:\<newline>runAsNonRoot: true'', SourceID = ''multi.yaml'',
             SectionPath = ''Deployment/my-app (doc 0) / spec.securityContext'', Confidence = 0.88\<rparr>,
            \<lparr>Text = ''containers:\<newline>- name: app\<newline>  image: my-app:1.0'', SourceID = ''multi.yaml'',
             SectionPath = ''Deployment/my-app (doc 0) / spec.containers'', Confidence = 0.88\<rparr>,
            \<lparr>Text = ''kind: Service\<newline>apiVersion: v1'', SourceID = ''multi.yaml'',
             SectionPath = ''Service/my-svc (doc 1) / identity'', Confidence = 0.9\<rparr>]
   \<and> Kind \<lparr>APIVersion = ''apps/v1'', Kind = ''Deployment'',
             Metadata = [''name'' \<mapsto> ''my-app''],
             Spec = Some [''securityContext'' \<mapsto> ''runAsNonRoot: true'',
                          ''containers'' \<mapsto> ''- name: app\<newline>  image: my-app:1.0'']\<rparr> = ''Deployment''
   \<and> yaml_Unmarshal_manifest sample_lib service_doc
       = Inr \<lparr>APIVersion = ''v1'', Kind = ''Service'', Metadata = [''name'' \<mapsto> ''my-svc''],
              Spec = Some [''type'' \<mapsto> ''ClusterIP'']\<rparr>
   \<and> (\<exists>chunks. KubernetesParser_Parse sample_lib
                  \<lparr>Content = multi_doc, Format = [], ID = ''multi.yaml''\<rparr> = Inr chunks
         \<and> (\<exists>c\<in>set chunks. strings_Contains (Text c) ''kind: Deployment'')
         \<and> (\<exists>c\<in>set chunks. strings_Contains (Text c) ''kind: Service''))
   \<and> document_chunks sample_lib \<lparr>Content = ''invalid: [unclosed'', Format = [], ID = ''multi.yaml''\<rparr> 0
        ''invalid: [unclosed'' = []"
proof -
  let ?src = "\<lparr>Content = multi_doc, Format = [], ID = ''multi.yaml''\<rparr>"
  note c7 = C7_multi_document [of sample_lib ?src]
  have d0: "document_chunks sample_lib ?src 0 (deployment_doc @ ''\<newline>'') =
      [\<lparr>Text = ''kind: Deployment\<newline>apiVersion: apps/v1'', SourceID = ''multi.yaml'',
             SectionPath = ''Deployment/my-app (doc 0) / identity'', Confidence = 0.9\<rparr>,
            \<lparr>Text = ''securityContext:\<newline>runAsNonRoot: true'', SourceID = ''multi.yaml'',
             SectionPath = ''Deployment/my-app (doc 0) / spec.securityContext'', Confidence = 0.88\<rparr>,
            \<lparr>Text = ''containers:\<newline>- name: app\<newline>  image: my-app:1.0'', SourceID = ''multi.yaml'',
             SectionPath = ''Deployment/my-app (doc 0) / spec.containers'', Confidence = 0.88\<rparr>]"
    unfolding document_chunks_def multi_doc_TrimSpace
    by (simp add: parse_evals sample_lib_def string_evals)
  have d1: "document_chunks sample_lib ?src 1 (CHR ''\<newline>'' # service_doc @ ''\<newline>'') =
      [\<lparr>Text = ''kind: Service\<newline>apiVersion: v1'', SourceID = ''multi.yaml'',
             SectionPath = ''Service/my-svc (doc 1) / identity'', Confidence = 0.9\<rparr>]"
    unfolding document_chunks_def multi_doc_TrimSpace
    by (simp add: parse_evals sample_lib_def string_evals)
  have parse: "KubernetesParser_Parse sample_lib ?src =
      Inr (document_chunks sample_lib ?src 0 (deployment_doc @ ''\<newline>'')
           @ document_chunks sample_lib ?src 1 (CHR ''\<newline>'' # service_doc @ ''\<newline>''))"
    using c7 by (simp add: multi_doc_Split)
  have skip: "document_chunks sample_lib
      \<lparr>Content = ''invalid: [unclosed'', Format = [], ID = ''multi.yaml''\<rparr> 0 ''invalid: [unclosed'' = []"
    using C7_multi_document
      [of sample_lib "\<lparr>Content = ''invalid: [unclosed'', Format = [], ID = ''multi.yaml''\<rparr>"]
      k8s_invalid_fails [of "''multi.yaml''" 0]
    by (simp add: k8s_invalid_TrimSpace)
  let ?m1 = "\<lparr>APIVersion = ''apps/v1'', Kind = ''Deployment'',
             Metadata = [''name'' \<mapsto> ''my-app''],
             Spec = Some [''securityContext'' \<mapsto> ''runAsNonRoot: true'',
                          ''containers'' \<mapsto> ''- name: app\<newline>  image: my-app:1.0'']\<rparr>"
  let ?m2 = "\<lparr>APIVersion = ''v1'', Kind = ''Service'', Metadata = [''name'' \<mapsto> ''my-svc''],
              Spec = Some [''type'' \<mapsto> ''ClusterIP'']\<rparr>"
  have m1: "yaml_Unmarshal_manifest sample_lib deployment_doc = Inr ?m1"
    by (simp add: sample_lib_def sample_Unmarshal_manifest_def)
  have m2: "yaml_Unmarshal_manifest sample_lib service_doc = Inr ?m2"
    by (simp add: sample_lib_def sample_Unmarshal_manifest_def deployment_doc_def service_doc_def)
  have kinds: "Kind ?m1 = ''Deployment''" "Kind ?m2 = ''Service''"
    by simp_all
  have both: "\<exists>chunks. KubernetesParser_Parse sample_lib ?src = Inr chunks
         \<and> (\<exists>c\<in>set chunks. strings_Contains (Text c) ''kind: Deployment'')
         \<and> (\<exists>c\<in>set chunks. strings_Contains (Text c) ''kind: Service'')"
  proof -
    have same: "?src\<lparr>Content := multi_doc\<rparr> = ?src"
      by simp
    show ?thesis
      using C7_multi_document [of sample_lib ?src ?m1 ?m2] m1 m2 kinds
      unfolding same by blast
  qed
  have full: "KubernetesParser_Parse sample_lib ?src
     = Inr [\<lparr>Text = ''kind: Deployment\<newline>apiVersion: apps/v1'', SourceID = ''multi.yaml'',
             SectionPath = ''Deployment/my-app (doc 0) / identity'', Confidence = 0.9\<rparr>,
            \<lparr>Text = ''securityContext:\<newline>runAsNonRoot: true'', SourceID = ''multi.yaml'',
             SectionPath = ''Deployment/my-app (doc 0) / spec.securityContext'', Confidence = 0.88\<rparr>,
            \<lparr>Text = ''containers:\<newline>- name: app\<newline>  image: my-app:1.0'', SourceID = ''multi.yaml'',
             SectionPath = ''Deployment/my-app (doc 0) / spec.containers'', Confidence = 0.88\<rparr>,
            \<lparr>Text = ''kind: Service\<newline>apiVersion: v1'', SourceID = ''multi.yaml'',
             SectionPath = ''Service/my-svc (doc 1) / identity'', Confidence = 0.9\<rparr>]"
    using parse d0 d1 by simp
  show ?thesis
    using full skip m2 kinds(1) both by blast
qed

subsection \<open>C10: the Kubernetes parser returns no error\<close>

text \<open>
  C10. \<open>KubernetesParser.Parse\<close> returns no error on any input; when every piece fails
  to decode it returns the empty chunk sequence; so a run that selects the Kubernetes
  parser succeeds and never reports a wrapped parse failure.
\<close>

theorem C10_kubernetes_never_fails:
  "(\<exists>chunks. KubernetesParser_Parse lib source = Inr chunks)
   \<and> ((\<forall>doc\<in>set (strings_Split (Content source) ''\<newline>---''). \<forall>i.
          \<exists>err. parseDocument lib (strings_TrimSpace doc) (ID source) i = Inl err)
        \<longrightarrow> KubernetesParser_Parse lib source = Inr [])
   \<and> (selectParser p source = Inr (KubernetesParser lib) \<longrightarrow>
        (\<exists>result. RunWithMeta lib' p r source = Inr result \<and> ParserUsed result = ''kubernetes''))
   \<and> (selectParser p source = Inr (KubernetesParser lib) \<longrightarrow>
        (\<forall>name err. RunWithMeta lib' p r source \<noteq> Inl (ParserFailed name err)))"
proof -
  have total: "\<exists>chunks. KubernetesParser_Parse lib source = Inr chunks"
    by (simp add: KubernetesParser_Parse_def)
  have none: "KubernetesParser_Parse lib source = Inr []"
    if fail: "\<forall>doc\<in>set (strings_Split (Content source) ''\<newline>---''). \<forall>i.
          \<exists>err. parseDocument lib (strings_TrimSpace doc) (ID source) i = Inl err"
  proof -
    have "document_chunks lib source i doc = []"
      if "doc \<in> set (strings_Split (Content source) ''\<newline>---'')" for i doc
    proof -
      from fail that obtain err
        where "parseDocument lib (strings_TrimSpace doc) (ID source) i = Inl err"
        by blast
      then show ?thesis
        by (simp add: document_chunks_def)
    qed
    then have "\<forall>x\<in>set (enumerate 0 (strings_Split (Content source) ''\<newline>---'')).
        (\<lambda>(i, doc). document_chunks lib source i doc) x = []"
      by (auto simp: in_set_enumerate_eq)
    then have "concat (map (\<lambda>(i, doc). document_chunks lib source i doc)
            (enumerate 0 (strings_Split (Content source) ''\<newline>---''))) = []"
      by (simp add: concat_eq_Nil_conv)
    then show ?thesis
      by (simp add: KubernetesParser_Parse_eq)
  qed
  have run: "\<exists>result. RunWithMeta lib' p r source = Inr result \<and> ParserUsed result = ''kubernetes''"
    if "selectParser p source = Inr (KubernetesParser lib)"
    using that by (simp add: RunWithMeta_def KubernetesParser_def KubernetesParser_Parse_def)
  have never: "\<forall>name err. RunWithMeta lib' p r source \<noteq> Inl (ParserFailed name err)"
    if "selectParser p source = Inr (KubernetesParser lib)"
    using run [OF that] by auto
  show ?thesis
    using total none run never by blast
qed

theorem C10_kubernetes_never_fails_witness:
  "selectParser (NewPipeline [KubernetesParser sample_lib])
       \<lparr>Content = ''invalid: [unclosed'', Format = ''kubernetes'', ID = ''bad.yaml''\<rparr>
     = Inr (KubernetesParser sample_lib)
   \<and> KubernetesParser_Parse sample_lib
       \<lparr>Content = ''invalid: [unclosed'', Format = ''kubernetes'', ID = ''bad.yaml''\<rparr> = Inr []
   \<and> RunWithMeta sample_lib (NewPipeline [KubernetesParser sample_lib]) (\<lambda>entries. entries)
       \<lparr>Content = ''invalid: [unclosed'', Format = ''kubernetes'', ID = ''bad.yaml''\<rparr>
     = Inr \<lparr>Candidates = [], ParserUsed = ''kubernetes'', ChunkCount = 0\<rparr>"
proof -
  let ?src = "\<lparr>Content = ''invalid: [unclosed'', Format = ''kubernetes'', ID = ''bad.yaml''\<rparr>"
  let ?p = "NewPipeline [KubernetesParser sample_lib]"
  have sel: "selectParser ?p ?src = Inr (KubernetesParser sample_lib)"
    by (simp add: selectParser_def NewPipeline_def KubernetesParser_def KubernetesParser_CanHandle_def
          sample_lib_def ascii_ToLower_def)
  have fails: "\<forall>doc\<in>set (strings_Split (Content ?src) ''\<newline>---''). \<forall>i.
          \<exists>err. parseDocument sample_lib (strings_TrimSpace doc) (ID ?src) i = Inl err"
    by (simp add: k8s_invalid_Split k8s_invalid_TrimSpace k8s_invalid_fails)
  have parse: "KubernetesParser_Parse sample_lib ?src = Inr []"
    using C10_kubernetes_never_fails [of sample_lib ?src ?p sample_lib "\<lambda>entries. entries"] fails
    by blast
  have "RunWithMeta sample_lib ?p (\<lambda>entries. entries) ?src
     = Inr \<lparr>Candidates = [], ParserUsed = ''kubernetes'', ChunkCount = 0\<rparr>"
    using sel parse by (simp add: RunWithMeta_def KubernetesParser_def SchemaMapper_Map_def)
  with sel parse show ?thesis by simp
qed

subsection \<open>C8: headings and sections of a Markdown document\<close>

text \<open>
  C8, as amended. The document of \<open>TestMarkdownParser_Parse\<close> parses into exactly three
  chunks with the section paths \<open>Section One\<close>, \<open>Subsection\<close> and \<open>Section Two\<close>, each
  of confidence 0.85. In general each heading line (prefix \<open>#\<close>) closes the section
  before it and starts a new one; a section whose body (the lines up to the next
  heading), joined and trimmed, is not empty becomes one chunk, whose section path is
  the heading text (trimmed of leading \<open>#\<close> and white space), or \<open>preamble\<close> when that
  text is empty; a section with a blank body becomes no chunk; and the body before the
  first heading, when not blank, becomes one chunk labelled \<open>preamble\<close>.
\<close>

theorem C8_markdown_sections:
  fixes source :: EvidenceSource
  shows
  "(MarkdownParser_Parse section_one_source :: 'e error + EvidenceChunk list) =
     Inr [\<lparr>Text = ''Content of section one.'', SourceID = ''test.md'', SectionPath = ''Section One'',
           Confidence = 0.85\<rparr>,
          \<lparr>Text = ''More content here.'', SourceID = ''test.md'', SectionPath = ''Subsection'',
           Confidence = 0.85\<rparr>,
          \<lparr>Text = ''Another section.'', SourceID = ''test.md'', SectionPath = ''Section Two'',
           Confidence = 0.85\<rparr>]
   \<and> (MarkdownParser_Parse source :: 'e error + EvidenceChunk list) =
       Inr (MarkdownParser_Parse_lines source (strings_Split (Content source) ''\<newline>''))
   \<and> (strings_HasPrefix h ''#'' \<and> (\<forall>l\<in>set body. \<not> strings_HasPrefix l ''#'')
        \<and> (rest = [] \<or> (\<exists>h' rest'. rest = h' # rest' \<and> strings_HasPrefix h' ''#''))
       \<longrightarrow> MarkdownParser_Parse_lines source (before @ h # body @ rest)
            = MarkdownParser_Parse_lines source before
                @ section_chunks source (strings_TrimSpace (strings_TrimLeft h ''#'')) body
                @ MarkdownParser_Parse_lines source rest)
   \<and> ((\<forall>l\<in>set body. \<not> strings_HasPrefix l ''#'')
        \<and> (rest = [] \<or> (\<exists>h' rest'. rest = h' # rest' \<and> strings_HasPrefix h' ''#''))
       \<longrightarrow> MarkdownParser_Parse_lines source (body @ rest)
            = section_chunks source [] body @ MarkdownParser_Parse_lines source rest)"
  using section_one_Parse heading_section [of h body rest source before]
    preamble_section [of body rest source]
  by (simp add: MarkdownParser_Parse_def)

theorem C8_markdown_sections_witness:
  "strings_Split (Content preamble_source) ''\<newline>''
     = [''This is a preamble.'', []] @ ''# First Section'' # [''Section content.''] @ []
   \<and> strings_HasPrefix ''# First Section'' ''#''
   \<and> \<not> strings_HasPrefix ''This is a preamble.'' ''#'' \<and> \<not> strings_HasPrefix [] ''#''
   \<and> \<not> strings_HasPrefix ''Section content.'' ''#''
   \<and> (MarkdownParser_Parse preamble_source :: string error + EvidenceChunk list)
     = Inr [\<lparr>Text = ''This is a preamble.'', SourceID = ''doc.md'', SectionPath = ''preamble'',
             Confidence = 0.85\<rparr>,
            \<lparr>Text = ''Section content.'', SourceID = ''doc.md'', SectionPath = ''First Section'',
             Confidence = 0.85\<rparr>]"
proof -
  let ?pre = "[''This is a preamble.'', []]"
  let ?h = "''# First Section''"
  let ?body = "[''Section content.'']"
  note c8 = C8_markdown_sections [where 'e = string]
  have heads: "strings_HasPrefix ?h ''#''" "\<forall>l\<in>set ?pre. \<not> strings_HasPrefix l ''#''"
    "\<forall>l\<in>set ?body. \<not> strings_HasPrefix l ''#''"
    by (simp_all add: strings_HasPrefix_def)
  have "MarkdownParser_Parse_lines preamble_source (?pre @ ?h # ?body @ [])
      = MarkdownParser_Parse_lines preamble_source ?pre
          @ section_chunks preamble_source (strings_TrimSpace (strings_TrimLeft ?h ''#'')) ?body
          @ MarkdownParser_Parse_lines preamble_source []"
    using c8 [of preamble_source ?h ?body "[]" ?pre] heads by blast
  moreover have "MarkdownParser_Parse_lines preamble_source (?pre @ [])
      = section_chunks preamble_source [] ?pre @ MarkdownParser_Parse_lines preamble_source []"
    using c8 [of preamble_source ?h ?pre "[]"] heads by blast
  moreover have "section_chunks preamble_source [] ?pre
      = [\<lparr>Text = ''This is a preamble.'', SourceID = ''doc.md'', SectionPath = ''preamble'',
             Confidence = 0.85\<rparr>]"
    by (simp add: section_chunks_def preamble_source_def string_evals)
  moreover have "section_chunks preamble_source (strings_TrimSpace (strings_TrimLeft ?h ''#'')) ?body
      = [\<lparr>Text = ''Section content.'', SourceID = ''doc.md'', SectionPath = ''First Section'',
             Confidence = 0.85\<rparr>]"
    by (simp add: section_chunks_def preamble_source_def string_evals)
  ultimately have "MarkdownParser_Parse_lines preamble_source (?pre @ ?h # ?body @ [])
      = [\<lparr>Text = ''This is a preamble.'', SourceID = ''doc.md'', SectionPath = ''preamble'',
             Confidence = 0.85\<rparr>,
            \<lparr>Text = ''Section content.'', SourceID = ''doc.md'', SectionPath = ''First Section'',
             Confidence = 0.85\<rparr>]"
    by (simp add: Parse_lines_Nil)
  then have "(MarkdownParser_Parse preamble_source :: string error + EvidenceChunk list)
     = Inr [\<lparr>Text = ''This is a preamble.'', SourceID = ''doc.md'', SectionPath = ''preamble'',
             Confidence = 0.85\<rparr>,
            \<lparr>Text = ''Section content.'', SourceID = ''doc.md'', SectionPath = ''First Section'',
             Confidence = 0.85\<rparr>]"
    using c8 [of preamble_source] preamble_Split by simp
  then show ?thesis
    using preamble_Split by (simp add: strings_HasPrefix_def)
qed

text \<open>
  As stated (every heading line starts a chunk whose section path is the heading text,
  and \<open>preamble\<close> labels the body before any heading) the claim fails: after the bare
  heading line \<open>#\<close>, whose heading text is empty, the body becomes a chunk labelled
  \<open>preamble\<close>; and the heading \<open># A\<close>, with no body before the next heading, starts no
  chunk at all.
\<close>

theorem C8_bare_heading_counterexample:
  "(MarkdownParser_Parse \<lparr>Content = ''#\<newline>body'', Format = [], ID = ''doc.md''\<rparr>
      :: string error + EvidenceChunk list)
     = Inr [\<lparr>Text = ''body'', SourceID = ''doc.md'', SectionPath = ''preamble'', Confidence = 0.85\<rparr>]
   \<and> strings_HasPrefix ''#'' ''#''
   \<and> strings_TrimSpace (strings_TrimLeft ''#'' ''#'') = []
   \<and> (MarkdownParser_Parse \<lparr>Content = ''# A\<newline># B\<newline>x'', Format = [], ID = ''doc.md''\<rparr>
      :: string error + EvidenceChunk list)
     = Inr [\<lparr>Text = ''x'', SourceID = ''doc.md'', SectionPath = ''B'', Confidence = 0.85\<rparr>]"
  by (simp add: parse_evals string_evals)

(* C1 *)

subsection \<open>C1: two runs on the same source\<close>

text \<open>
  C1 says that two runs of the pipeline on an identical source return the same candidates
  in the same order. \<open>YAMLParser.Parse\<close> builds its chunks in a \<open>range\<close> over the decoded
  map, so their order, and with it the order of the candidates, is the order in which
  that execution visits the map. Here are two orders for the same source (the document of
  \<open>TestYAMLParser_Parse\<close>, with its three keys) and the two different results.
\<close>

theorem C1_yaml_order_of_candidates:
  \<open>range_order (\<lambda>entries :: (string \<times> string) list. entries)
   \<and> range_order (rev :: (string \<times> string) list \<Rightarrow> (string \<times> string) list)
   \<and> RunWithMeta sample_lib (NewPipeline [YAMLParser sample_lib]) (\<lambda>entries. entries) policy_source
     = Inr \<lparr>Candidates =
              [\<lparr>TargetField = ''metadata.title'', Value = ''title: My Policy'',
                SourceRef = ''policy.yaml / title'', CandidateConfidence = 0.6\<rparr>,
               \<lparr>TargetField = ''metadata.version'', Value = ''version: "1.0"'',
                SourceRef = ''policy.yaml / version'', CandidateConfidence = 0.6\<rparr>,
               \<lparr>TargetField = ''controls[].objective'', Value = ''objective: Ensure security'',
                SourceRef = ''policy.yaml / objective'', CandidateConfidence = 0.6\<rparr>],
            ParserUsed = ''yaml'', ChunkCount = 3\<rparr>
   \<and> RunWithMeta sample_lib (NewPipeline [YAMLParser sample_lib]) rev policy_source
     = Inr \<lparr>Candidates =
              [\<lparr>TargetField = ''controls[].objective'', Value = ''objective: Ensure security'',
                SourceRef = ''policy.yaml / objective'', CandidateConfidence = 0.6\<rparr>,
               \<lparr>TargetField = ''metadata.version'', Value = ''version: "1.0"'',
                SourceRef = ''policy.yaml / version'', CandidateConfidence = 0.6\<rparr>,
               \<lparr>TargetField = ''metadata.title'', Value = ''title: My Policy'',
                SourceRef = ''policy.yaml / title'', CandidateConfidence = 0.6\<rparr>],
            ParserUsed = ''yaml'', ChunkCount = 3\<rparr>
   \<and> RunWithMeta sample_lib (NewPipeline [YAMLParser sample_lib]) (\<lambda>entries. entries) policy_source
     \<noteq> RunWithMeta sample_lib (NewPipeline [YAMLParser sample_lib]) rev policy_source\<close>
proof -
  have chunks: \<open>YAMLParser_Parse sample_lib ord policy_source =
      Inr (YAMLParser_Parse_loop sample_lib policy_source
             (ord [(''title'', ''My Policy''), (''version'', ''"1.0"''), (''objective'', ''Ensure security'')]) [])\<close>
    for ord
    by (simp add: YAMLParser_Parse_def policy_source_def sample_lib_def sample_Unmarshal_map_def policy_yaml_def)
  have sel: "selectParser (NewPipeline [YAMLParser sample_lib]) policy_source = Inr (YAMLParser sample_lib)"
    by (simp add: selectParser_def policy_source_def parser_evals)
  have run1: \<open>RunWithMeta sample_lib (NewPipeline [YAMLParser sample_lib]) (\<lambda>entries. entries) policy_source
     = Inr \<lparr>Candidates =
              [\<lparr>TargetField = ''metadata.title'', Value = ''title: My Policy'',
                SourceRef = ''policy.yaml / title'', CandidateConfidence = 0.6\<rparr>,
               \<lparr>TargetField = ''metadata.version'', Value = ''version: "1.0"'',
                SourceRef = ''policy.yaml / version'', CandidateConfidence = 0.6\<rparr>,
               \<lparr>TargetField = ''controls[].objective'', Value = ''objective: Ensure security'',
                SourceRef = ''policy.yaml / objective'', CandidateConfidence = 0.6\<rparr>],
            ParserUsed = ''yaml'', ChunkCount = 3\<rparr>\<close>
    using sel chunks [of "\<lambda>entries. entries"]
    by (simp add: RunWithMeta_def YAMLParser_def)
      (simp add: policy_source_def rendered_def mapper_evals sample_lib_def ascii_ToLower_def string_evals)
  have run2: \<open>RunWithMeta sample_lib (NewPipeline [YAMLParser sample_lib]) rev policy_source
     = Inr \<lparr>Candidates =
              [\<lparr>TargetField = ''controls[].objective'', Value = ''objective: Ensure security'',
                SourceRef = ''policy.yaml / objective'', CandidateConfidence = 0.6\<rparr>,
               \<lparr>TargetField = ''metadata.version'', Value = ''version: "1.0"'',
                SourceRef = ''policy.yaml / version'', CandidateConfidence = 0.6\<rparr>,
               \<lparr>TargetField = ''metadata.title'', Value = ''title: My Policy'',
                SourceRef = ''policy.yaml / title'', CandidateConfidence = 0.6\<rparr>],
            ParserUsed = ''yaml'', ChunkCount = 3\<rparr>\<close>
    using sel chunks [of rev]
    by (simp add: RunWithMeta_def YAMLParser_def)
      (simp add: policy_source_def rendered_def mapper_evals sample_lib_def ascii_ToLower_def string_evals)
  have differ: "RunWithMeta sample_lib (NewPipeline [YAMLParser sample_lib]) (\<lambda>entries. entries) policy_source
     \<noteq> RunWithMeta sample_lib (NewPipeline [YAMLParser sample_lib]) rev policy_source"
    unfolding run1 run2 by simp
  show ?thesis
    using run1 run2 differ range_order_id range_order_rev by blast
qed

subsection \<open>C9: the chunks and candidates of a run\<close>

text \<open>
  C9, as amended. Every chunk produced by the Markdown, YAML or Kubernetes parser has a
  text that is not blank (it is not empty after trimming) and a confidence in [0,1], and
  every candidate produced from such chunks has a confidence in [0,1]; the text of a
  Markdown chunk is trimmed. (As stated, the claim says of all three parsers that the
  text is trimmed.)
\<close>

theorem C9_chunk_invariant:
  fixes lib :: "('v, 'e) go_lib" and lib' :: "('w, 'f) go_lib"
  assumes "MarkdownParser_Parse source = (Inr chunks :: 'e error + EvidenceChunk list)
           \<or> YAMLParser_Parse lib ord source = Inr chunks
           \<or> KubernetesParser_Parse lib source = Inr chunks"
  shows "(\<forall>c\<in>set chunks. Text c \<noteq> [] \<and> strings_TrimSpace (Text c) \<noteq> []
            \<and> 0 \<le> Confidence c \<and> Confidence c \<le> 1)
         \<and> (\<forall>cand\<in>set (SchemaMapper_Map lib' chunks).
              0 \<le> CandidateConfidence cand \<and> CandidateConfidence cand \<le> 1)
         \<and> (MarkdownParser_Parse source = (Inr chunks :: 'e error + EvidenceChunk list)
              \<longrightarrow> (\<forall>c\<in>set chunks. strings_TrimSpace (Text c) = Text c))"
proof -
  have chunk: "Text c \<noteq> [] \<and> strings_TrimSpace (Text c) \<noteq> [] \<and> 0 \<le> Confidence c \<and> Confidence c \<le> 1"
    if c: "c \<in> set chunks" for c
  proof -
    consider (md) "MarkdownParser_Parse source = (Inr chunks :: 'e error + EvidenceChunk list)"
      | (yaml) "YAMLParser_Parse lib ord source = Inr chunks"
      | (k8s) "KubernetesParser_Parse lib source = Inr chunks"
      using assms by blast
    then show ?thesis
    proof cases
      case md
      from MarkdownParser_chunks [OF md c]
      have "Text c \<noteq> []" "strings_TrimSpace (Text c) = Text c" "Confidence c = 0.85"
        by blast+
      then show ?thesis by simp
    next
      case yaml
      from YAMLParser_chunks [OF yaml c]
      have colon: "CHR '':'' \<in> set (Text c)" and conf: "Confidence c = 0.80"
        by blast+
      from colon have "Text c \<noteq> []" by auto
      with colon_TrimSpace [OF colon] conf show ?thesis by simp
    next
      case k8s
      from KubernetesParser_chunks [OF k8s c]
      have colon: "CHR '':'' \<in> set (Text c)" and conf: "Confidence c = 0.90 \<or> Confidence c = 0.88"
        by blast+
      from colon have "Text c \<noteq> []" by auto
      with colon_TrimSpace [OF colon] conf show ?thesis by auto
    qed
  qed
  have cand: "0 \<le> CandidateConfidence cand \<and> CandidateConfidence cand \<le> 1"
    if "cand \<in> set (SchemaMapper_Map lib' chunks)" for cand
  proof -
    from that obtain c where c: "c \<in> set chunks" and "mapChunk lib' c = Some cand"
      using SchemaMapper_Map_source by blast
    then have "CandidateConfidence cand = 0.75 * Confidence c"
      by (simp add: mapChunk_confidence)
    with chunk [OF c] show ?thesis by simp
  qed
  have trimmed: "strings_TrimSpace (Text c) = Text c"
    if "MarkdownParser_Parse source = (Inr chunks :: 'e error + EvidenceChunk list)" "c \<in> set chunks" for c
    using MarkdownParser_chunks [OF that] by simp
  show ?thesis
    using chunk cand trimmed by blast
qed

theorem C9_chunk_invariant_witness:
  "KubernetesParser_Parse sample_lib pod_source
     = Inr [\<lparr>Text = ''kind: Pod\<newline>apiVersion: '', SourceID = ''pod.yaml'',
             SectionPath = ''Pod/ / identity'', Confidence = 0.9\<rparr>]
   \<and> strings_TrimSpace ''kind: Pod\<newline>apiVersion: '' \<noteq> []
   \<and> (0::real) \<le> 0.9 \<and> (0.9::real) \<le> 1
   \<and> (MarkdownParser_Parse section_one_source :: string error + EvidenceChunk list) =
     Inr [\<lparr>Text = ''Content of section one.'', SourceID = ''test.md'', SectionPath = ''Section One'',
           Confidence = 0.85\<rparr>,
          \<lparr>Text = ''More content here.'', SourceID = ''test.md'', SectionPath = ''Subsection'',
           Confidence = 0.85\<rparr>,
          \<lparr>Text = ''Another section.'', SourceID = ''test.md'', SectionPath = ''Section Two'',
           Confidence = 0.85\<rparr>]
   \<and> strings_TrimSpace ''Content of section one.'' = ''Content of section one.''
   \<and> strings_TrimSpace ''More content here.'' = ''More content here.''
   \<and> strings_TrimSpace ''Another section.'' = ''Another section.''"
proof -
  have k: "MarkdownParser_Parse pod_source = (Inr [\<lparr>Text = ''kind: Pod\<newline>apiVersion: '', SourceID = ''pod.yaml'',
             SectionPath = ''Pod/ / identity'', Confidence = 0.9\<rparr>] :: string error + EvidenceChunk list)
       \<or> YAMLParser_Parse sample_lib rev pod_source = Inr [\<lparr>Text = ''kind: Pod\<newline>apiVersion: '', SourceID = ''pod.yaml'',
             SectionPath = ''Pod/ / identity'', Confidence = 0.9\<rparr>]
       \<or> KubernetesParser_Parse sample_lib pod_source = Inr [\<lparr>Text = ''kind: Pod\<newline>apiVersion: '', SourceID = ''pod.yaml'',
             SectionPath = ''Pod/ / identity'', Confidence = 0.9\<rparr>]"
    using pod_Parse by simp
  have m: "MarkdownParser_Parse section_one_source = (Inr [\<lparr>Text = ''Content of section one.'', SourceID = ''test.md'', SectionPath = ''Section One'',
           Confidence = 0.85\<rparr>,
          \<lparr>Text = ''More content here.'', SourceID = ''test.md'', SectionPath = ''Subsection'',
           Confidence = 0.85\<rparr>,
          \<lparr>Text = ''Another section.'', SourceID = ''test.md'', SectionPath = ''Section Two'',
           Confidence = 0.85\<rparr>] :: string error + EvidenceChunk list)"
    by (rule section_one_Parse)
  show ?thesis
    using C9_chunk_invariant [OF k, where lib' = sample_lib]
      C9_chunk_invariant [OF disjI1, OF m, where lib' = sample_lib] pod_Parse m
    by simp
qed

text \<open>
  The text of a YAML or Kubernetes chunk is put together from parts and not trimmed as a
  whole. A manifest that names a kind and no API version gives an identity chunk whose
  text ends in a space.
\<close>

theorem C9_trailing_space_counterexample:
  "KubernetesParser_Parse sample_lib pod_source
     = Inr [\<lparr>Text = ''kind: Pod\<newline>apiVersion: '', SourceID = ''pod.yaml'',
             SectionPath = ''Pod/ / identity'', Confidence = 0.9\<rparr>]
   \<and> strings_TrimSpace ''kind: Pod\<newline>apiVersion: '' = ''kind: Pod\<newline>apiVersion:''
   \<and> strings_TrimSpace ''kind: Pod\<newline>apiVersion: '' \<noteq> ''kind: Pod\<newline>apiVersion: ''"
  using pod_Parse by (simp add: string_evals)

end
